theory Spec2Isabelle
  imports Main "HOL-Library.Word"
begin

section \<open>SplinterDB public API: key codec, message codec, lifecycle\<close>

text \<open>
  A shallow embedding of \<^verbatim>\<open>splinterdb.c\<close>, the public API with its variable-length key
  shim (\<^verbatim>\<open>src/unnamed/part_001\<close>), and of the message codec of the default data-config
  (\<^verbatim>\<open>src/unnamed/part_000\<close>).

  Bytes are \<open>8 word\<close>, buffers are byte lists. A C function that writes through a pointer
  takes the buffer and returns the buffer it leaves behind. A \<^verbatim>\<open>platform_assert\<close> that
  fails ends the process; an access outside the buffer or through a null pointer, and the
  release of a block that is not allocated, have no defined behaviour. All are values of
  type \<open>fault\<close>, so every function returns \<open>fault + 'a\<close>, with \<open>Inl\<close> the fault and
  \<open>Inr\<close> what the C function returns and writes.
\<close>

subsection \<open>Bytes, faults, slices\<close>

type_synonym u8 = "8 word"
type_synonym u64 = "64 word"

unbundle bit_operations_syntax

datatype fault = Assert_failed | Out_of_bounds | Null_deref | Invalid_free

text \<open>The errno values of \<^verbatim>\<open>errno.h\<close> on Linux.\<close>

definition EINVAL :: int where
  "EINVAL = 22"

definition ENOMEM :: int where
  "ENOMEM = 12"

text \<open>
  Modelled from the spec: \<^verbatim>\<open>slice\<close> and its accessors are declared in \<^verbatim>\<open>util.h\<close>, which
  is not among the sources. A slice is a (length, pointer) view over bytes; the null slice
  is distinguishable from the empty slice. \<open>slice_create n p\<close> views the first \<open>n\<close> bytes
  at \<open>p\<close>.
\<close>

datatype slice = NULL_SLICE | Slice "u8 list"

fun slice_length :: "slice \<Rightarrow> nat" where
  "slice_length NULL_SLICE = 0"
| "slice_length (Slice bs) = length bs"

fun slice_data :: "slice \<Rightarrow> u8 list" where
  "slice_data NULL_SLICE = []"
| "slice_data (Slice bs) = bs"

fun slice_is_null :: "slice \<Rightarrow> bool" where
  "slice_is_null NULL_SLICE = True"
| "slice_is_null (Slice bs) = False"

definition slice_create :: "nat \<Rightarrow> u8 list \<Rightarrow> slice" where
  "slice_create n p = Slice (take n p)"

text \<open>\<^verbatim>\<open>memset(p, c, n)\<close> and \<^verbatim>\<open>memmove(p + off, src, |src|)\<close> on a buffer that is large
  enough; the callers check the range first.\<close>

definition memset :: "u8 list \<Rightarrow> u8 \<Rightarrow> nat \<Rightarrow> u8 list" where
  "memset p c n = replicate n c @ drop n p"

definition memmove_at :: "u8 list \<Rightarrow> nat \<Rightarrow> u8 list \<Rightarrow> u8 list" where
  "memmove_at p off src = take off p @ src @ drop (off + length src) p"

subsection \<open>Key size limits\<close>

text \<open>
  \<^verbatim>\<open>MAX_KEY_SIZE\<close> and \<^verbatim>\<open>SPLINTERDB_MAX_KEY_SIZE\<close> are defined in headers that are not
  among the sources, so they are parameters. \<^verbatim>\<open>splinterdb.c\<close> constrains them by four
  \<^verbatim>\<open>static_assert\<close>s, collected in \<open>static_asserts\<close>; a program that compiles satisfies
  them. \<^verbatim>\<open>var_len_key_encoding\<close> is one \<^verbatim>\<open>uint8\<close> followed by a flexible array, so its size
  is 1.
\<close>

record limits =
  MAX_KEY_SIZE :: nat
  SPLINTERDB_MAX_KEY_SIZE :: nat

definition sizeof_var_len_key_encoding :: nat where
  "sizeof_var_len_key_encoding = 1"

definition UINT8_MAX :: nat where
  "UINT8_MAX = 255"

definition static_asserts :: "limits \<Rightarrow> bool" where
  "static_asserts lim \<longleftrightarrow>
     MAX_KEY_SIZE lim \<ge> 8 \<and>
     MAX_KEY_SIZE lim \<le> 105 \<and>
     SPLINTERDB_MAX_KEY_SIZE lim + sizeof_var_len_key_encoding = MAX_KEY_SIZE lim \<and>
     SPLINTERDB_MAX_KEY_SIZE lim \<le> UINT8_MAX"

subsection \<open>Variable-length key encoding\<close>

text \<open>
  \<^verbatim>\<open>encode_key(out_key_buffer_len, out_key_buffer, in_key)\<close>. The result is the returned
  \<^verbatim>\<open>int\<close> and the buffer after the call. The length check comes first and returns before
  anything is written; then the assertion on the buffer length; then the \<^verbatim>\<open>memset\<close>, the
  header byte (the length cast to \<^verbatim>\<open>uint8\<close>) and the \<^verbatim>\<open>memmove\<close> of the payload.
\<close>

definition encode_key :: "limits \<Rightarrow> nat \<Rightarrow> u8 list \<Rightarrow> slice \<Rightarrow> fault + (int \<times> u8 list)" where
  "encode_key lim out_key_buffer_len out_key_buffer in_key =
     (if slice_length in_key > SPLINTERDB_MAX_KEY_SIZE lim then
        Inr (EINVAL, out_key_buffer)
      else if out_key_buffer_len \<noteq> MAX_KEY_SIZE lim then
        Inl Assert_failed
      else if length out_key_buffer < out_key_buffer_len then
        Inl Out_of_bounds
      else
        let zeroed = memset out_key_buffer 0 out_key_buffer_len in
        if length zeroed < sizeof_var_len_key_encoding then
          Inl Out_of_bounds
        else
          let key_enc = zeroed[0 := (of_nat (slice_length in_key) :: u8)] in
          if slice_length in_key > 0 then
            (if length key_enc < sizeof_var_len_key_encoding + slice_length in_key then
               Inl Out_of_bounds
             else
               Inr (0, memmove_at key_enc sizeof_var_len_key_encoding (slice_data in_key)))
          else
            Inr (0, key_enc))"

text \<open>
  Modelled from the spec: the enumeration \<^verbatim>\<open>message_type\<close> is declared in \<^verbatim>\<open>data.h\<close>,
  which is not among the sources. The spec's data model gives the codes stored in the
  header byte of a message: Insert = 1, Delete = 2, Update = 3. \<^verbatim>\<open>MESSAGE_TYPE_INVALID\<close>
  is taken as 0.
\<close>

datatype message_type =
  MESSAGE_TYPE_INVALID | MESSAGE_TYPE_INSERT | MESSAGE_TYPE_DELETE | MESSAGE_TYPE_UPDATE

fun message_type_code :: "message_type \<Rightarrow> u8" where
  "message_type_code MESSAGE_TYPE_INVALID = 0"
| "message_type_code MESSAGE_TYPE_INSERT = 1"
| "message_type_code MESSAGE_TYPE_DELETE = 2"
| "message_type_code MESSAGE_TYPE_UPDATE = 3"

text \<open>
  \<^verbatim>\<open>message\<close> is declared in that header too; here it is the message type and the payload
  slice, which is what \<^verbatim>\<open>message_create\<close> puts together and \<^verbatim>\<open>message_slice\<close> returns.
\<close>

record message =
  msg_type :: message_type
  msg_data :: slice

definition message_create :: "message_type \<Rightarrow> slice \<Rightarrow> message" where
  "message_create t data = \<lparr>msg_type = t, msg_data = data\<rparr>"

text \<open>
  Modelled from the spec: the macro \<^verbatim>\<open>DELETE_MESSAGE\<close> is defined in that header; the spec
  calls it the pre-built Delete sentinel message. It carries no payload.
\<close>

definition DELETE_MESSAGE :: message where
  "DELETE_MESSAGE = message_create MESSAGE_TYPE_DELETE NULL_SLICE"

text \<open>
  \<^verbatim>\<open>splinterdb_iterator_get_current\<close>, given the physical key and the message that
  \<^verbatim>\<open>iterator_get_curr\<close> produced: the result is what is stored in \<^verbatim>\<open>*key\<close> and
  \<^verbatim>\<open>*value\<close>. The key slice's data is cast to \<^verbatim>\<open>var_len_key_encoding *\<close>: the first byte
  is \<^verbatim>\<open>kenc->length\<close>, the bytes after it are \<^verbatim>\<open>kenc->data\<close>. A physical key with no
  byte at all, or with fewer data bytes than its header announces, is read out of bounds.
\<close>

definition splinterdb_iterator_get_current ::
  "limits \<Rightarrow> slice \<times> message \<Rightarrow> fault + (slice \<times> slice)" where
  "splinterdb_iterator_get_current lim itor_curr =
     (case slice_data (fst itor_curr) of
        [] \<Rightarrow> Inl Out_of_bounds
      | kenc_length # kenc_data \<Rightarrow>
          if \<not> unat kenc_length \<le> SPLINTERDB_MAX_KEY_SIZE lim then Inl Assert_failed
          else if length kenc_data < unat kenc_length then Inl Out_of_bounds
          else Inr (slice_create (unat kenc_length) kenc_data, msg_data (snd itor_curr)))"

subsection \<open>The data-config shim\<close>

text \<open>
  \<^verbatim>\<open>data_config\<close> is declared in \<^verbatim>\<open>data.h\<close>, which is not among the sources; the record has
  the fields \<^verbatim>\<open>splinterdb.c\<close> reads and writes. \<^verbatim>\<open>min_key\<close> and \<^verbatim>\<open>max_key\<close> are byte
  arrays. A function pointer is an option, \<open>None\<close> the null pointer.

  The application's comparator is a function of the two key slices: every call site
  passes the config the comparator belongs to as its first argument. The callbacks that
  the code modelled here only copies or tests against null are identified by a number.
  In the config the shim builds for the lower layers, the comparator, the two merge
  callbacks and \<^verbatim>\<open>key_to_string\<close> are the addresses of the shim's own trampolines.
\<close>

datatype callback =
  App_callback nat
| Shim_merge_tuple_ptr
| Shim_merge_tuple_final_ptr
| Shim_key_to_string_ptr

datatype shim_compare_ptr = Shim_key_compare_ptr

record 'f data_config =
  key_size :: nat
  min_key :: "u8 list"
  min_key_length :: nat
  max_key :: "u8 list"
  max_key_length :: nat
  key_compare :: "'f option"
  key_hash :: "callback option"
  merge_tuples :: "callback option"
  merge_tuples_final :: "callback option"
  key_to_string :: "callback option"
  message_to_string :: "callback option"

type_synonym app_data_config = "(slice \<Rightarrow> slice \<Rightarrow> int) data_config"

text \<open>
  \<^verbatim>\<open>shim_data_config\<close>: the config handed to the lower layers, and a pointer to the
  application's config.
\<close>

record shim_data_config =
  super :: "shim_compare_ptr data_config"
  app_data_cfg :: "app_data_config option"

text \<open>
  \<^verbatim>\<open>splinterdb_shim_key_compare(cfg, key1_raw, key2_raw)\<close>: both headers are read, both
  lengths asserted, and the application's comparator is called on the two logical keys.
\<close>

definition splinterdb_shim_key_compare ::
  "limits \<Rightarrow> shim_data_config \<Rightarrow> slice \<Rightarrow> slice \<Rightarrow> fault + int" where
  "splinterdb_shim_key_compare lim cfg key1_raw key2_raw =
     (case (slice_data key1_raw, slice_data key2_raw) of
        (key1_length # key1_data, key2_length # key2_data) \<Rightarrow>
          if \<not> unat key1_length \<le> SPLINTERDB_MAX_KEY_SIZE lim then Inl Assert_failed
          else if \<not> unat key2_length \<le> SPLINTERDB_MAX_KEY_SIZE lim then Inl Assert_failed
          else
            (case app_data_cfg cfg of
               None \<Rightarrow> Inl Null_deref
             | Some app_cfg \<Rightarrow>
                 (case key_compare app_cfg of
                    None \<Rightarrow> Inl Null_deref
                  | Some app_key_compare \<Rightarrow>
                      if length key1_data < unat key1_length
                         \<or> length key2_data < unat key2_length
                      then Inl Out_of_bounds
                      else Inr (app_key_compare (slice_create (unat key1_length) key1_data)
                                                (slice_create (unat key2_length) key2_data))))
      | _ \<Rightarrow> Inl Out_of_bounds)"

text \<open>
  A zero-initialised \<^verbatim>\<open>data_config\<close> (\<^verbatim>\<open>data_config shim = {0}\<close>, and the one inside a
  store that \<^verbatim>\<open>TYPED_ZALLOC\<close> returned). The two key arrays have \<^verbatim>\<open>MAX_KEY_SIZE\<close> bytes:
  \<^verbatim>\<open>encode_key\<close> is called with \<^verbatim>\<open>sizeof(shim.min_key)\<close> and asserts that length.
\<close>

definition zero_data_config :: "limits \<Rightarrow> 'f data_config" where
  "zero_data_config lim =
     \<lparr>key_size = 0,
      min_key = replicate (MAX_KEY_SIZE lim) 0, min_key_length = 0,
      max_key = replicate (MAX_KEY_SIZE lim) 0, max_key_length = 0,
      key_compare = None, key_hash = None, merge_tuples = None, merge_tuples_final = None,
      key_to_string = None, message_to_string = None\<rparr>"

text \<open>
  \<^verbatim>\<open>splinterdb_shim_data_config(app_cfg, out_shim)\<close>: the result is the returned \<^verbatim>\<open>int\<close>
  and \<^verbatim>\<open>*out_shim\<close> after the call, which is written only on the last path.
\<close>

definition splinterdb_shim_data_config ::
  "limits \<Rightarrow> app_data_config \<Rightarrow> shim_data_config \<Rightarrow> fault + (int \<times> shim_data_config)" where
  "splinterdb_shim_data_config lim app_cfg out_shim =
     (let shim = (zero_data_config lim :: shim_compare_ptr data_config)
                   \<lparr>key_size := key_size app_cfg + sizeof_var_len_key_encoding\<rparr> in
      case encode_key lim (length (min_key shim)) (min_key shim)
             (slice_create (min_key_length app_cfg) (min_key app_cfg)) of
        Inl f \<Rightarrow> Inl f
      | Inr (rc, min_buf) \<Rightarrow>
          if rc \<noteq> 0 then Inr (rc, out_shim)
          else
            let shim = shim\<lparr>min_key := min_buf, min_key_length := 0\<rparr> in
            case encode_key lim (length (max_key shim)) (max_key shim)
                   (slice_create (max_key_length app_cfg) (max_key app_cfg)) of
              Inl f \<Rightarrow> Inl f
            | Inr (rc, max_buf) \<Rightarrow>
                if rc \<noteq> 0 then Inr (rc, out_shim)
                else
                  let shim = shim\<lparr>max_key := max_buf, max_key_length := 0,
                                   key_compare := Some Shim_key_compare_ptr,
                                   key_hash := key_hash app_cfg,
                                   merge_tuples := Some Shim_merge_tuple_ptr,
                                   merge_tuples_final := Some Shim_merge_tuple_final_ptr,
                                   key_to_string := Some Shim_key_to_string_ptr,
                                   message_to_string := message_to_string app_cfg\<rparr>
                  in Inr (0, \<lparr>super = shim, app_data_cfg = Some app_cfg\<rparr>))"

text \<open>
  Modelled from the spec: \<^verbatim>\<open>platform_status\<close>, \<^verbatim>\<open>SUCCESS\<close> and the \<^verbatim>\<open>STATUS_\<close> constants are
  declared in \<^verbatim>\<open>platform.h\<close>, which is not among the sources. A status is the integer
  \<^verbatim>\<open>platform_status_to_int\<close> extracts (\<^verbatim>\<open>status.r\<close>); 0 is success; the spec's interface
  section gives BadParam = 22 and NoMemory = 12.
\<close>

type_synonym platform_status = int

definition STATUS_OK :: platform_status where
  "STATUS_OK = 0"

definition STATUS_BAD_PARAM :: platform_status where
  "STATUS_BAD_PARAM = EINVAL"

definition STATUS_NO_MEMORY :: platform_status where
  "STATUS_NO_MEMORY = ENOMEM"

definition SUCCESS :: "platform_status \<Rightarrow> bool" where
  "SUCCESS rc \<longleftrightarrow> rc = 0"

definition platform_status_to_int :: "platform_status \<Rightarrow> int" where
  "platform_status_to_int status = status"

text \<open>
  \<^verbatim>\<open>splinterdb_validate_app_data_config(cfg)\<close>: seven assertions, the one test that returns
  \<^verbatim>\<open>STATUS_BAD_PARAM\<close>, three more assertions, the comparison of the minimum with the
  maximum key and the assertion on its result.
\<close>

definition splinterdb_validate_app_data_config ::
  "limits \<Rightarrow> app_data_config \<Rightarrow> fault + platform_status" where
  "splinterdb_validate_app_data_config lim cfg =
     (if \<not> key_size cfg > 0 then Inl Assert_failed
      else if key_compare cfg = None then Inl Assert_failed
      else if key_hash cfg = None then Inl Assert_failed
      else if merge_tuples cfg = None then Inl Assert_failed
      else if merge_tuples_final cfg = None then Inl Assert_failed
      else if key_to_string cfg = None then Inl Assert_failed
      else if message_to_string cfg = None then Inl Assert_failed
      else if key_size cfg > SPLINTERDB_MAX_KEY_SIZE lim then Inr STATUS_BAD_PARAM
      else if \<not> max_key_length cfg > 0 then Inl Assert_failed
      else if \<not> max_key_length cfg \<le> key_size cfg then Inl Assert_failed
      else if \<not> min_key_length cfg \<le> key_size cfg then Inl Assert_failed
      else
        (case key_compare cfg of
           None \<Rightarrow> Inl Null_deref
         | Some cfg_key_compare \<Rightarrow>
             let min_max_cmp =
                   cfg_key_compare (slice_create (min_key_length cfg) (min_key cfg))
                                   (slice_create (max_key_length cfg) (max_key cfg))
             in if \<not> min_max_cmp < 0 then Inl Assert_failed else Inr STATUS_OK))"

subsection \<open>The default data-config's message codec\<close>

text \<open>
  \<^verbatim>\<open>message_encoding\<close> is one \<^verbatim>\<open>uint8\<close> followed by a flexible array: its size is 1.
  \<^verbatim>\<open>size_t\<close> is a 64-bit word, so that the sum in the capacity check wraps as in C.
\<close>

definition sizeof_message_encoding :: u64 where
  "sizeof_message_encoding = 1"

text \<open>
  \<^verbatim>\<open>message_class(cfg, raw_msg_len, raw_msg)\<close>: a switch on the type byte. The default
  branch is \<^verbatim>\<open>platform_assert(FALSE, ...)\<close>.
\<close>

definition message_class :: "u64 \<Rightarrow> u8 list \<Rightarrow> fault + message_type" where
  "message_class raw_msg_len raw_msg =
     (case raw_msg of
        [] \<Rightarrow> Inl Out_of_bounds
      | msg_type_byte # msg_value \<Rightarrow>
          if msg_type_byte = message_type_code MESSAGE_TYPE_INSERT then Inr MESSAGE_TYPE_INSERT
          else if msg_type_byte = message_type_code MESSAGE_TYPE_DELETE then Inr MESSAGE_TYPE_DELETE
          else Inl Assert_failed)"

text \<open>
  \<^verbatim>\<open>encode_message(type, value_len, value, dst_msg_buffer_len, dst_msg_buffer,
  out_encoded_len)\<close>. The result is the returned \<^verbatim>\<open>int\<close>, the destination buffer after the
  call and the content of \<^verbatim>\<open>*out_encoded_len\<close> after the call. The type byte is stored
  first, through the pointer, whatever \<^verbatim>\<open>dst_msg_buffer_len\<close> says; then the capacity is
  checked; then the value is copied and the length stored.
\<close>

definition encode_message ::
  "message_type \<Rightarrow> u64 \<Rightarrow> u8 list \<Rightarrow> u64 \<Rightarrow> u8 list \<Rightarrow> u64 \<Rightarrow> fault + (int \<times> u8 list \<times> u64)" where
  "encode_message type value_len val dst_msg_buffer_len dst_msg_buffer out_encoded_len =
     (if dst_msg_buffer = [] then Inl Out_of_bounds
      else
        let msg = dst_msg_buffer[0 := message_type_code type] in
        if value_len + sizeof_message_encoding > dst_msg_buffer_len then
          Inr (EINVAL, msg, out_encoded_len)
        else if value_len > 0 then
          (if length val < unat value_len
              \<or> length msg < unat sizeof_message_encoding + unat value_len
           then Inl Out_of_bounds
           else Inr (0, memmove_at msg (unat sizeof_message_encoding) (take (unat value_len) val),
                     sizeof_message_encoding + value_len))
        else
          Inr (0, msg, sizeof_message_encoding + value_len))"

text \<open>
  \<^verbatim>\<open>decode_message(msg_buffer_len, msg_buffer, out_value_len, out_value)\<close>: the result is
  the returned \<^verbatim>\<open>int\<close> and, on success, the length and the bytes of the value it points
  to.
\<close>

definition decode_message :: "u64 \<Rightarrow> u8 list \<Rightarrow> int \<times> (u64 \<times> u8 list) option" where
  "decode_message msg_buffer_len msg_buffer =
     (if msg_buffer_len < sizeof_message_encoding then (EINVAL, None)
      else (0, Some (msg_buffer_len - sizeof_message_encoding,
                     drop (unat sizeof_message_encoding) msg_buffer)))"

subsection \<open>Store configuration and its defaults\<close>

text \<open>
  \<^verbatim>\<open>splinterdb_config\<close> is declared in \<^verbatim>\<open>splinterdb.h\<close>, which is not among the sources; the
  record has the fields \<^verbatim>\<open>splinterdb.c\<close> reads. Sizes and counts are 64-bit words,
  \<^verbatim>\<open>io_flags\<close> and \<^verbatim>\<open>io_perms\<close> 32-bit words. A pointer is an option, \<open>None\<close> the null
  pointer; the heap handles are identified by a number.
\<close>

type_synonym u32 = "32 word"

record splinterdb_config =
  filename :: "string option"
  cache_size :: u64
  disk_size :: u64
  data_cfg :: app_data_config
  heap_handle :: "nat option"
  heap_id :: "nat option"
  page_size :: u64
  extent_size :: u64
  io_flags :: u32
  io_perms :: u32
  io_async_queue_depth :: u64
  cache_logfile :: "string option"
  btree_rough_count_height :: u64
  filter_remainder_size :: u64
  filter_index_size :: u64
  use_log :: bool
  memtable_capacity :: u64
  fanout :: u64
  max_branches_per_node :: u64
  use_stats :: bool
  reclaim_threshold :: u64
  use_shmem :: bool
  trace_shmem_allocs :: bool
  trace_shmem_frees :: bool
  trace_shmem :: bool

text \<open>
  \<^verbatim>\<open>LAIO_DEFAULT_PAGE_SIZE\<close> and \<^verbatim>\<open>LAIO_DEFAULT_EXTENT_SIZE\<close> are defined in a header that
  is not among the sources, so they are parameters.
\<close>

record laio_defaults =
  LAIO_DEFAULT_PAGE_SIZE :: u64
  LAIO_DEFAULT_EXTENT_SIZE :: u64

text \<open>The open flags of \<^verbatim>\<open>fcntl.h\<close> on Linux, and \<^verbatim>\<open>UINT64_MAX\<close> of \<^verbatim>\<open>stdint.h\<close>.\<close>

definition O_RDWR :: u32 where
  "O_RDWR = 2"

definition O_CREAT :: u32 where
  "O_CREAT = 64"

definition UINT64_MAX :: u64 where
  "UINT64_MAX = 2 ^ 64 - 1"

text \<open>
  Modelled from the spec: the macro \<^verbatim>\<open>MiB_TO_B\<close> is defined in a header that is not among
  the sources; the spec gives the default \<^verbatim>\<open>memtable_capacity = MiB_TO_B(24)\<close> as 24 MiB.
\<close>

definition MiB_TO_B :: "u64 \<Rightarrow> u64" where
  "MiB_TO_B x = x * 1024 * 1024"

text \<open>
  \<^verbatim>\<open>splinterdb_config_set_defaults(cfg)\<close>: twelve tests \<^verbatim>\<open>if (!cfg->f) cfg->f = d\<close>, in
  the order of the source. \<^verbatim>\<open>0755\<close> is octal.
\<close>

definition splinterdb_config_set_defaults ::
  "laio_defaults \<Rightarrow> splinterdb_config \<Rightarrow> splinterdb_config" where
  "splinterdb_config_set_defaults laio cfg =
     (let cfg = (if page_size cfg = 0
                 then cfg\<lparr>page_size := LAIO_DEFAULT_PAGE_SIZE laio\<rparr> else cfg);
          cfg = (if extent_size cfg = 0
                 then cfg\<lparr>extent_size := LAIO_DEFAULT_EXTENT_SIZE laio\<rparr> else cfg);
          cfg = (if io_flags cfg = 0 then cfg\<lparr>io_flags := O_RDWR OR O_CREAT\<rparr> else cfg);
          cfg = (if io_perms cfg = 0 then cfg\<lparr>io_perms := 7 * 64 + 5 * 8 + 5\<rparr> else cfg);
          cfg = (if io_async_queue_depth cfg = 0
                 then cfg\<lparr>io_async_queue_depth := 256\<rparr> else cfg);
          cfg = (if btree_rough_count_height cfg = 0
                 then cfg\<lparr>btree_rough_count_height := 1\<rparr> else cfg);
          cfg = (if filter_index_size cfg = 0 then cfg\<lparr>filter_index_size := 256\<rparr> else cfg);
          cfg = (if filter_remainder_size cfg = 0
                 then cfg\<lparr>filter_remainder_size := 6\<rparr> else cfg);
          cfg = (if memtable_capacity cfg = 0
                 then cfg\<lparr>memtable_capacity := MiB_TO_B 24\<rparr> else cfg);
          cfg = (if fanout cfg = 0 then cfg\<lparr>fanout := 8\<rparr> else cfg);
          cfg = (if max_branches_per_node cfg = 0
                 then cfg\<lparr>max_branches_per_node := 24\<rparr> else cfg);
          cfg = (if reclaim_threshold cfg = 0
                 then cfg\<lparr>reclaim_threshold := UINT64_MAX\<rparr> else cfg)
      in cfg)"

subsection \<open>The store and the engine behind it\<close>

text \<open>
  \<^verbatim>\<open>struct splinterdb\<close>, with the fields the public API computes itself. The configs and
  handles of the subsystems inside it (io, allocator, cache, log, trunk, task system) are
  filled in and used by functions of the engine only; what the API does with them is
  recorded as the calls it makes.
\<close>

record splinterdb =
  spl :: "nat option"
  trunk_id :: u64
  kvs_heap_handle :: "nat option"
  kvs_heap_id :: "nat option"
  shim_data_cfg :: shim_data_config

text \<open>
  The calls the public API makes to the engine, the platform and the allocator, with the
  arguments that the API computes. The global tracing switches that
  \<^verbatim>\<open>splinterdb_create_or_open\<close> sets are recorded the same way. Logging is left out.
\<close>

datatype call =
  Platform_heap_create
| Set_Trace_shmem_allocs
| Set_Trace_shmem_frees
| Typed_zalloc_kvs "nat option"
| Platform_free_kvs "nat option"
| Platform_heap_set_splinterdb_handle "nat option"
| Io_config_init u64 u64 u32 u32 u64 "string option"
| Laio_config_valid
| Rc_allocator_config_init u64
| Clockcache_config_init u64 "string option" bool
| Shard_log_config_init
| Trunk_config_init u64 u64 u64 u64 u64 u64 u64 bool bool
| Io_handle_init
| Task_system_create
| Rc_allocator_mount
| Rc_allocator_init
| Clockcache_init
| Trunk_mount u64
| Trunk_create u64
| Trunk_unmount "nat option"
| Clockcache_deinit
| Rc_allocator_unmount
| Io_handle_deinit
| Task_system_destroy "nat option"
| Platform_heap_destroy "nat option"
| Trunk_insert "nat option" "u8 list" message
| Trunk_lookup "nat option" "u8 list"
| Trunk_range_iterator_init "nat option" "u8 list option"
| Trunk_range_iterator_deinit

text \<open>
  What the engine, the platform and the allocator answer. Each of these functions is
  called at most once by each function of the API, so one answer per function is enough.
  \<^verbatim>\<open>STATUS_INVALID_STATE\<close> is a macro of \<^verbatim>\<open>platform.h\<close> for which the spec gives no number;
  \<^verbatim>\<open>debug_build\<close> tells whether \<^verbatim>\<open>debug_assert\<close> is compiled in.
\<close>

record extern =
  platform_heap_create_rc :: platform_status
  platform_heap_create_handle :: "nat option"
  platform_heap_create_id :: "nat option"
  typed_zalloc_kvs :: bool
  laio_config_valid_rc :: platform_status
  io_handle_init_rc :: platform_status
  task_system_create_rc :: platform_status
  rc_allocator_mount_rc :: platform_status
  rc_allocator_init_rc :: platform_status
  clockcache_init_rc :: platform_status
  trunk_mount_result :: "nat option"
  trunk_create_result :: "nat option"
  trunk_insert_rc :: platform_status
  trunk_lookup_rc :: platform_status
  typed_malloc_it :: "nat option"
  trunk_range_iterator_init_rc :: platform_status
  STATUS_INVALID_STATE :: platform_status
  debug_build :: bool

subsection \<open>Opening a store\<close>

text \<open>
  \<^verbatim>\<open>splinterdb_init_config(kvs_cfg, kvs)\<close>: the result is the returned status, the caller's
  config after the call (its heap handles are nulled once they are copied into the store),
  the store after the call, and the calls made.
\<close>

definition splinterdb_init_config ::
  "limits \<Rightarrow> laio_defaults \<Rightarrow> extern \<Rightarrow> splinterdb_config \<Rightarrow> splinterdb \<Rightarrow> call list \<Rightarrow>
     fault + (platform_status \<times> splinterdb_config \<times> splinterdb \<times> call list)" where
  "splinterdb_init_config lim laio ext kvs_cfg kvs tr =
     (case splinterdb_validate_app_data_config lim (data_cfg kvs_cfg) of
        Inl f \<Rightarrow> Inl f
      | Inr rc \<Rightarrow>
          if \<not> SUCCESS rc then Inr (rc, kvs_cfg, kvs, tr)
          else if filename kvs_cfg = None \<or> cache_size kvs_cfg = 0 \<or> disk_size kvs_cfg = 0
          then Inr (STATUS_BAD_PARAM, kvs_cfg, kvs, tr)
          else
            let cfg = splinterdb_config_set_defaults laio kvs_cfg in
            (case splinterdb_shim_data_config lim (data_cfg kvs_cfg) (shim_data_cfg kvs) of
               Inl f \<Rightarrow> Inl f
             | Inr (shim_rc, shim) \<Rightarrow>
                 if \<not> 0 = shim_rc then Inl Assert_failed
                 else
                   let kvs = kvs\<lparr>shim_data_cfg := shim,
                                  kvs_heap_handle := heap_handle cfg,
                                  kvs_heap_id := heap_id cfg\<rparr>;
                       kvs_cfg = kvs_cfg\<lparr>heap_handle := None, heap_id := None\<rparr>;
                       tr = tr @ [Io_config_init (page_size cfg) (extent_size cfg) (io_flags cfg)
                                    (io_perms cfg) (io_async_queue_depth cfg) (filename cfg),
                                  Laio_config_valid];
                       rc = laio_config_valid_rc ext
                   in
                     if \<not> SUCCESS rc then Inr (rc, kvs_cfg, kvs, tr)
                     else
                       Inr (STATUS_OK, kvs_cfg, kvs,
                            tr @ [Rc_allocator_config_init (disk_size cfg),
                                  Clockcache_config_init (cache_size cfg) (cache_logfile cfg)
                                    (use_stats cfg),
                                  Shard_log_config_init,
                                  Trunk_config_init (memtable_capacity cfg) (fanout cfg)
                                    (max_branches_per_node cfg) (btree_rough_count_height cfg)
                                    (filter_remainder_size cfg) (filter_index_size cfg)
                                    (reclaim_threshold cfg) (use_log cfg) (use_stats cfg)])))"

text \<open>
  The store \<^verbatim>\<open>TYPED_ZALLOC\<close> returns: all bytes zero.
\<close>

definition zalloc_splinterdb :: "limits \<Rightarrow> splinterdb" where
  "zalloc_splinterdb lim =
     \<lparr>spl = None, trunk_id = 0, kvs_heap_handle = None, kvs_heap_id = None,
      shim_data_cfg = \<lparr>super = zero_data_config lim, app_data_cfg = None\<rparr>\<rparr>"

text \<open>
  The clean-up labels at the end of \<^verbatim>\<open>splinterdb_create_or_open\<close>: each one falls through
  to the next. \<^verbatim>\<open>deinit_kvhandle\<close> frees the store with the store's heap id if it has one,
  else with the config's.
\<close>

definition deinit_kvhandle :: "splinterdb_config \<Rightarrow> splinterdb \<Rightarrow> call list" where
  "deinit_kvhandle kvs_cfg kvs =
     [Platform_free_kvs (if kvs_heap_id kvs \<noteq> None then kvs_heap_id kvs else heap_id kvs_cfg)]"

definition deinit_iohandle :: "splinterdb_config \<Rightarrow> splinterdb \<Rightarrow> call list" where
  "deinit_iohandle kvs_cfg kvs = Io_handle_deinit # deinit_kvhandle kvs_cfg kvs"

definition deinit_system :: "splinterdb_config \<Rightarrow> splinterdb \<Rightarrow> call list" where
  "deinit_system kvs_cfg kvs = Task_system_destroy (kvs_heap_id kvs) # deinit_iohandle kvs_cfg kvs"

definition deinit_allocator :: "splinterdb_config \<Rightarrow> splinterdb \<Rightarrow> call list" where
  "deinit_allocator kvs_cfg kvs = Rc_allocator_unmount # deinit_system kvs_cfg kvs"

definition deinit_cache :: "splinterdb_config \<Rightarrow> splinterdb \<Rightarrow> call list" where
  "deinit_cache kvs_cfg kvs = Clockcache_deinit # deinit_allocator kvs_cfg kvs"

text \<open>
  \<^verbatim>\<open>splinterdb_create_or_open(kvs_cfg, kvs_out, open_existing)\<close>. \<open>kvs_out\<close> is \<open>None\<close> for a
  null \<^verbatim>\<open>kvs_out\<close>, else the content of the caller's pointer variable, itself \<open>None\<close> or a
  store. The result is the returned \<^verbatim>\<open>int\<close>, the caller's config and the caller's pointer
  variable after the call, and the calls made. When the shared heap cannot be created the
  code jumps to \<^verbatim>\<open>deinit_kvhandle\<close> with \<^verbatim>\<open>kvs\<close> still null and reads \<^verbatim>\<open>kvs->heap_id\<close>.
\<close>

definition splinterdb_create_or_open ::
  "limits \<Rightarrow> laio_defaults \<Rightarrow> extern \<Rightarrow> splinterdb_config \<Rightarrow> splinterdb option option \<Rightarrow> bool \<Rightarrow>
     call list \<Rightarrow> fault + (int \<times> splinterdb_config \<times> splinterdb option option \<times> call list)" where
  "splinterdb_create_or_open lim laio ext kvs_cfg kvs_out open_existing tr =
     (let shmem = use_shmem kvs_cfg \<and> heap_handle kvs_cfg = None;
          tr = (if shmem then tr @ [Platform_heap_create] else tr)
      in
        if shmem \<and> \<not> SUCCESS (platform_heap_create_rc ext) then Inl Null_deref
        else
          let kvs_cfg = (if shmem
                         then kvs_cfg\<lparr>heap_handle := platform_heap_create_handle ext,
                                      heap_id := platform_heap_create_id ext\<rparr>
                         else kvs_cfg);
              tr = tr @ (if shmem \<and> trace_shmem_allocs kvs_cfg then [Set_Trace_shmem_allocs] else [])
                      @ (if shmem \<and> trace_shmem_frees kvs_cfg then [Set_Trace_shmem_frees] else [])
                      @ (if shmem \<and> trace_shmem kvs_cfg
                         then [Set_Trace_shmem_allocs, Set_Trace_shmem_frees] else [])
          in
            if kvs_out = None then Inl Assert_failed
            else
              let tr = tr @ [Typed_zalloc_kvs (heap_id kvs_cfg)] in
              if \<not> typed_zalloc_kvs ext
              then Inr (platform_status_to_int STATUS_NO_MEMORY, kvs_cfg, kvs_out, tr)
              else
                (case splinterdb_init_config lim laio ext kvs_cfg (zalloc_splinterdb lim) tr of
                   Inl f \<Rightarrow> Inl f
                 | Inr (status, kvs_cfg, kvs, tr) \<Rightarrow>
                     if \<not> SUCCESS status
                     then Inr (platform_status_to_int status, kvs_cfg, kvs_out,
                               tr @ deinit_kvhandle kvs_cfg kvs)
                     else
                       let tr = (if kvs_heap_handle kvs \<noteq> None
                                 then tr @ [Platform_heap_set_splinterdb_handle (kvs_heap_handle kvs)]
                                 else tr);
                           tr = tr @ [Io_handle_init];
                           status = io_handle_init_rc ext
                       in
                         if \<not> SUCCESS status
                         then Inr (platform_status_to_int status, kvs_cfg, kvs_out,
                                   tr @ deinit_kvhandle kvs_cfg kvs)
                         else
                           let tr = tr @ [Task_system_create];
                               status = task_system_create_rc ext
                           in
                             if \<not> SUCCESS status
                             then Inr (platform_status_to_int status, kvs_cfg, kvs_out,
                                       tr @ deinit_iohandle kvs_cfg kvs)
                             else
                               let tr = tr @ [if open_existing then Rc_allocator_mount
                                              else Rc_allocator_init];
                                   status = (if open_existing then rc_allocator_mount_rc ext
                                             else rc_allocator_init_rc ext)
                               in
                                 if \<not> SUCCESS status
                                 then Inr (platform_status_to_int status, kvs_cfg, kvs_out,
                                           tr @ deinit_system kvs_cfg kvs)
                                 else
                                   let tr = tr @ [Clockcache_init];
                                       status = clockcache_init_rc ext
                                   in
                                     if \<not> SUCCESS status
                                     then Inr (platform_status_to_int status, kvs_cfg, kvs_out,
                                               tr @ deinit_allocator kvs_cfg kvs)
                                     else
                                       let kvs = kvs\<lparr>trunk_id := 1\<rparr>;
                                           tr = tr @ [if open_existing then Trunk_mount (trunk_id kvs)
                                                      else Trunk_create (trunk_id kvs)];
                                           kvs = kvs\<lparr>spl := (if open_existing
                                                               then trunk_mount_result ext
                                                               else trunk_create_result ext)\<rparr>
                                       in
                                         if spl kvs = None
                                         then Inr (platform_status_to_int (STATUS_INVALID_STATE ext),
                                                   kvs_cfg, kvs_out, tr @ deinit_cache kvs_cfg kvs)
                                         else Inr (platform_status_to_int status, kvs_cfg,
                                                   Some (Some kvs), tr)))"

definition splinterdb_create ::
  "limits \<Rightarrow> laio_defaults \<Rightarrow> extern \<Rightarrow> splinterdb_config \<Rightarrow> splinterdb option option \<Rightarrow>
     call list \<Rightarrow> fault + (int \<times> splinterdb_config \<times> splinterdb option option \<times> call list)" where
  "splinterdb_create lim laio ext cfg kvs tr =
     splinterdb_create_or_open lim laio ext cfg kvs False tr"

definition splinterdb_open ::
  "limits \<Rightarrow> laio_defaults \<Rightarrow> extern \<Rightarrow> splinterdb_config \<Rightarrow> splinterdb option option \<Rightarrow>
     call list \<Rightarrow> fault + (int \<times> splinterdb_config \<times> splinterdb option option \<times> call list)" where
  "splinterdb_open lim laio ext cfg kvs tr =
     splinterdb_create_or_open lim laio ext cfg kvs True tr"

subsection \<open>Closing a store\<close>

text \<open>
  \<^verbatim>\<open>splinterdb_close(kvs_in)\<close>, a \<^verbatim>\<open>void\<close> function. \<open>kvs_in\<close> is \<open>None\<close> for a null
  \<^verbatim>\<open>kvs_in\<close>, else the content of the caller's pointer variable. The result is the caller's
  pointer variable after the call and the calls made.
\<close>

definition splinterdb_close ::
  "splinterdb option option \<Rightarrow> call list \<Rightarrow> fault + (splinterdb option option \<times> call list)" where
  "splinterdb_close kvs_in tr =
     (case kvs_in of
        None \<Rightarrow> Inl Null_deref
      | Some None \<Rightarrow> Inl Assert_failed
      | Some (Some kvs) \<Rightarrow>
          Inr (Some None,
               tr @ [Trunk_unmount (spl kvs),
                     Clockcache_deinit,
                     Rc_allocator_unmount,
                     Io_handle_deinit,
                     Task_system_destroy (kvs_heap_id kvs),
                     Platform_heap_destroy (kvs_heap_handle kvs)]))"

subsection \<open>Point operations\<close>

text \<open>
  A \<^verbatim>\<open>const splinterdb *kvs\<close> argument is \<open>None\<close> for a null pointer, else the store.
\<close>

definition validate_key_length :: "splinterdb \<Rightarrow> nat \<Rightarrow> fault + int" where
  "validate_key_length kvs key_length =
     (case app_data_cfg (shim_data_cfg kvs) of
        None \<Rightarrow> Inl Null_deref
      | Some app_cfg \<Rightarrow> if key_length > key_size app_cfg then Inr EINVAL else Inr 0)"

definition validate_key_in_range :: "splinterdb \<Rightarrow> slice \<Rightarrow> fault + bool" where
  "validate_key_in_range kvs key =
     (case app_data_cfg (shim_data_cfg kvs) of
        None \<Rightarrow> Inl Null_deref
      | Some cfg \<Rightarrow>
          (case key_compare cfg of
             None \<Rightarrow> Inl Null_deref
           | Some cfg_key_compare \<Rightarrow>
               if cfg_key_compare (slice_create (min_key_length cfg) (min_key cfg)) key > 0
               then Inr False
               else if cfg_key_compare key (slice_create (max_key_length cfg) (max_key cfg)) > 0
               then Inr False
               else Inr True))"

text \<open>
  \<^verbatim>\<open>splinterdb_insert_message(kvs, key, msg)\<close>: the result is the returned \<^verbatim>\<open>int\<close> and the
  calls made. The key buffer on the stack has \<^verbatim>\<open>MAX_KEY_SIZE\<close> zero bytes.
\<close>

definition splinterdb_insert_message ::
  "limits \<Rightarrow> extern \<Rightarrow> splinterdb option \<Rightarrow> slice \<Rightarrow> message \<Rightarrow> call list \<Rightarrow>
     fault + (int \<times> call list)" where
  "splinterdb_insert_message lim ext kvs_ptr key msg tr =
     (case kvs_ptr of
        None \<Rightarrow> Inl Assert_failed
      | Some kvs \<Rightarrow>
          (case validate_key_length kvs (slice_length key) of
             Inl f \<Rightarrow> Inl f
           | Inr rc \<Rightarrow>
               if rc \<noteq> 0 then Inr (rc, tr)
               else
                 (case (if debug_build ext then validate_key_in_range kvs key else Inr True) of
                    Inl f \<Rightarrow> Inl f
                  | Inr in_range \<Rightarrow>
                      if \<not> in_range then Inl Assert_failed
                      else
                        let key_buffer = replicate (MAX_KEY_SIZE lim) 0 in
                        (case encode_key lim (length key_buffer) key_buffer key of
                           Inl f \<Rightarrow> Inl f
                         | Inr (rc, key_buffer) \<Rightarrow>
                             if rc \<noteq> 0 then Inr (rc, tr)
                             else
                               Inr (platform_status_to_int (trunk_insert_rc ext),
                                    tr @ [Trunk_insert (spl kvs) key_buffer msg])))))"

definition splinterdb_insert ::
  "limits \<Rightarrow> extern \<Rightarrow> splinterdb option \<Rightarrow> slice \<Rightarrow> slice \<Rightarrow> call list \<Rightarrow>
     fault + (int \<times> call list)" where
  "splinterdb_insert lim ext kvsb key val tr =
     (let msg = message_create MESSAGE_TYPE_INSERT val
      in splinterdb_insert_message lim ext kvsb key msg tr)"

definition splinterdb_delete ::
  "limits \<Rightarrow> extern \<Rightarrow> splinterdb option \<Rightarrow> slice \<Rightarrow> call list \<Rightarrow> fault + (int \<times> call list)" where
  "splinterdb_delete lim ext kvsb key tr =
     splinterdb_insert_message lim ext kvsb key DELETE_MESSAGE tr"

definition splinterdb_update ::
  "limits \<Rightarrow> extern \<Rightarrow> splinterdb option \<Rightarrow> slice \<Rightarrow> slice \<Rightarrow> call list \<Rightarrow>
     fault + (int \<times> call list)" where
  "splinterdb_update lim ext kvsb key update tr =
     (let msg = message_create MESSAGE_TYPE_UPDATE update
      in splinterdb_insert_message lim ext kvsb key msg tr)"

text \<open>
  \<^verbatim>\<open>splinterdb_lookup(kvs, key, result)\<close>: the key length is validated, through \<^verbatim>\<open>kvs\<close>,
  before the assertion that \<^verbatim>\<open>kvs\<close> is not null. The lookup result is written by the
  engine only.
\<close>

definition splinterdb_lookup ::
  "limits \<Rightarrow> extern \<Rightarrow> splinterdb option \<Rightarrow> slice \<Rightarrow> call list \<Rightarrow> fault + (int \<times> call list)" where
  "splinterdb_lookup lim ext kvs_ptr key tr =
     (case kvs_ptr of
        None \<Rightarrow> Inl Null_deref
      | Some kvs \<Rightarrow>
          (case validate_key_length kvs (slice_length key) of
             Inl f \<Rightarrow> Inl f
           | Inr rc \<Rightarrow>
               if rc \<noteq> 0 then Inr (rc, tr)
               else
                 let key_buffer = replicate (MAX_KEY_SIZE lim) 0 in
                 (case encode_key lim (length key_buffer) key_buffer key of
                    Inl f \<Rightarrow> Inl f
                  | Inr (rc, key_buffer) \<Rightarrow>
                      if rc \<noteq> 0 then Inr (rc, tr)
                      else
                        Inr (platform_status_to_int (trunk_lookup_rc ext),
                             tr @ [Trunk_lookup (spl kvs) key_buffer]))))"

subsection \<open>Creating an iterator\<close>

text \<open>
  \<^verbatim>\<open>struct splinterdb_iterator\<close>: the trunk range iterator inside it belongs to the engine.
  Iterator wrappers live on the heap: \<open>iter_heap\<close> maps the address of every live wrapper
  to its content. A pointer to a wrapper is an address, or \<open>None\<close> for null.
\<close>

record splinterdb_iterator =
  last_rc :: platform_status
  parent :: "splinterdb option"

record world =
  trace :: "call list"
  iter_heap :: "nat \<rightharpoonup> splinterdb_iterator"

text \<open>
  \<^verbatim>\<open>TYPED_MALLOC\<close> and \<^verbatim>\<open>platform_free\<close> are macros of \<^verbatim>\<open>platform.h\<close>, which is not among the
  sources. They are modelled as C's \<^verbatim>\<open>malloc\<close> and \<^verbatim>\<open>free\<close>: the allocator picks the
  address of the new block (or fails) and the block's content is whatever the memory held
  (\<open>junk\<close>); freeing null does nothing; freeing a live block releases it; freeing anything
  else is an invalid free.
\<close>

definition typed_malloc ::
  "nat option \<Rightarrow> splinterdb_iterator \<Rightarrow> (nat \<rightharpoonup> splinterdb_iterator) \<Rightarrow>
     nat option \<times> (nat \<rightharpoonup> splinterdb_iterator)" where
  "typed_malloc answer junk h =
     (case answer of
        None \<Rightarrow> (None, h)
      | Some a \<Rightarrow> (Some a, h(a \<mapsto> junk)))"

definition platform_free ::
  "nat option \<Rightarrow> (nat \<rightharpoonup> splinterdb_iterator) \<Rightarrow> fault + (nat \<rightharpoonup> splinterdb_iterator)" where
  "platform_free p h =
     (case p of
        None \<Rightarrow> Inr h
      | Some a \<Rightarrow> (case h a of None \<Rightarrow> Inl Invalid_free | Some blk \<Rightarrow> Inr (h(a := None))))"

text \<open>
  \<^verbatim>\<open>splinterdb_iterator_init(kvs, iter, start_key)\<close>. \<open>iter\<close> is the content of the caller's
  pointer variable \<^verbatim>\<open>*iter\<close> before the call. The result is the returned \<^verbatim>\<open>int\<close>, the content
  of \<^verbatim>\<open>*iter\<close> after the call, and the heap and the calls made. On the failure of
  \<^verbatim>\<open>trunk_range_iterator_init\<close> the code frees \<^verbatim>\<open>*iter\<close>, not \<^verbatim>\<open>it\<close>; when \<^verbatim>\<open>encode_key\<close>
  fails it returns without freeing anything.
\<close>

definition splinterdb_iterator_init ::
  "limits \<Rightarrow> extern \<Rightarrow> splinterdb_iterator \<Rightarrow> splinterdb option \<Rightarrow> nat option \<Rightarrow> slice \<Rightarrow> world \<Rightarrow>
     fault + (int \<times> nat option \<times> world)" where
  "splinterdb_iterator_init lim ext junk kvs_ptr iter start_key w =
     (case kvs_ptr of
        None \<Rightarrow> Inl Null_deref
      | Some kvs \<Rightarrow>
          if spl kvs = None then Inl Null_deref
          else
            (case typed_malloc (typed_malloc_it ext) junk (iter_heap w) of
               (None, h) \<Rightarrow> Inr (platform_status_to_int STATUS_NO_MEMORY, iter, w)
             | (Some it, h) \<Rightarrow>
                 let it_obj = junk\<lparr>last_rc := STATUS_OK\<rparr>;
                     w = w\<lparr>iter_heap := h(it \<mapsto> it_obj)\<rparr>;
                     start_key_buffer = replicate (MAX_KEY_SIZE lim) 0;
                     start_key_is_null = slice_is_null start_key
                 in
                   (case (if \<not> start_key_is_null
                          then encode_key lim (MAX_KEY_SIZE lim) start_key_buffer start_key
                          else Inr (0, start_key_buffer)) of
                      Inl f \<Rightarrow> Inl f
                    | Inr (rc, start_key_buffer) \<Rightarrow>
                        if rc \<noteq> 0 then Inr (rc, iter, w)
                        else
                          let w = w\<lparr>trace := trace w @
                                      [Trunk_range_iterator_init (spl kvs)
                                         (if start_key_is_null then None
                                          else Some start_key_buffer)]\<rparr>;
                              rc = trunk_range_iterator_init_rc ext
                          in
                            if \<not> SUCCESS rc then
                              (let w = w\<lparr>trace := trace w @ [Trunk_range_iterator_deinit]\<rparr> in
                               case platform_free iter (iter_heap w) of
                                 Inl f \<Rightarrow> Inl f
                               | Inr h \<Rightarrow>
                                   Inr (platform_status_to_int rc, iter, w\<lparr>iter_heap := h\<rparr>))
                            else
                              let it_obj = it_obj\<lparr>parent := Some kvs\<rparr>;
                                  w = w\<lparr>iter_heap := (iter_heap w)(it \<mapsto> it_obj)\<rparr>
                              in Inr (0, Some it, w))))"

subsection \<open>Example inputs\<close>

text \<open>
  Concrete inputs on which the theorems below are instantiated: key size limits that
  satisfy the static assertions; an application config shaped like the default one
  (empty minimum key, maximum key of \<^verbatim>\<open>0xFF\<close> bytes) with a lexicographic comparator and
  \<^verbatim>\<open>key_size\<close> 8; a store config that names a file, a cache size and a disk size and
  leaves everything else zero; an engine in which every call succeeds; an open store with
  that application config; and the content of a freshly allocated iterator wrapper.
\<close>

definition example_limits :: limits where
  "example_limits = \<lparr>MAX_KEY_SIZE = 16, SPLINTERDB_MAX_KEY_SIZE = 15\<rparr>"

definition example_laio :: laio_defaults where
  "example_laio = \<lparr>LAIO_DEFAULT_PAGE_SIZE = 4096, LAIO_DEFAULT_EXTENT_SIZE = 128 * 4096\<rparr>"

fun lex_cmp :: "u8 list \<Rightarrow> u8 list \<Rightarrow> int" where
  "lex_cmp [] [] = 0"
| "lex_cmp [] (y # ys) = - 1"
| "lex_cmp (x # xs) [] = 1"
| "lex_cmp (x # xs) (y # ys) = (if x < y then - 1 else if y < x then 1 else lex_cmp xs ys)"

definition example_key_compare :: "slice \<Rightarrow> slice \<Rightarrow> int" where
  "example_key_compare key1 key2 = lex_cmp (slice_data key1) (slice_data key2)"

definition example_app_cfg :: app_data_config where
  "example_app_cfg =
     \<lparr>key_size = 8,
      min_key = replicate 16 0, min_key_length = 0,
      max_key = replicate 16 255, max_key_length = 8,
      key_compare = Some example_key_compare,
      key_hash = Some (App_callback 1),
      merge_tuples = Some (App_callback 2),
      merge_tuples_final = Some (App_callback 3),
      key_to_string = Some (App_callback 4),
      message_to_string = Some (App_callback 5)\<rparr>"

definition example_cfg :: splinterdb_config where
  "example_cfg =
     \<lparr>filename = Some ''db'', cache_size = 1048576, disk_size = 16777216,
      data_cfg = example_app_cfg, heap_handle = None, heap_id = None,
      page_size = 0, extent_size = 0, io_flags = 0, io_perms = 0, io_async_queue_depth = 0,
      cache_logfile = None, btree_rough_count_height = 0,
      filter_remainder_size = 0, filter_index_size = 0, use_log = False,
      memtable_capacity = 0, fanout = 0, max_branches_per_node = 0, use_stats = False,
      reclaim_threshold = 0, use_shmem = False, trace_shmem_allocs = False,
      trace_shmem_frees = False, trace_shmem = False\<rparr>"

definition example_extern :: extern where
  "example_extern =
     \<lparr>platform_heap_create_rc = 0, platform_heap_create_handle = Some 1,
      platform_heap_create_id = Some 1, typed_zalloc_kvs = True,
      laio_config_valid_rc = 0, io_handle_init_rc = 0, task_system_create_rc = 0,
      rc_allocator_mount_rc = 0, rc_allocator_init_rc = 0, clockcache_init_rc = 0,
      trunk_mount_result = Some 7, trunk_create_result = Some 7,
      trunk_insert_rc = 0, trunk_lookup_rc = 0,
      typed_malloc_it = Some 100, trunk_range_iterator_init_rc = 0,
      STATUS_INVALID_STATE = 22, debug_build = False\<rparr>"

definition example_kvs :: splinterdb where
  "example_kvs =
     \<lparr>spl = Some 7, trunk_id = 1, kvs_heap_handle = None, kvs_heap_id = None,
      shim_data_cfg = \<lparr>super = zero_data_config example_limits,
                       app_data_cfg = Some example_app_cfg\<rparr>\<rparr>"

definition example_junk :: splinterdb_iterator where
  "example_junk = \<lparr>last_rc = 85, parent = None\<rparr>"

section \<open>Theorems\<close>

subsection \<open>Key codec\<close>

lemma encode_key_ok:
  assumes sa: "static_asserts lim"
    and len: "length k \<le> SPLINTERDB_MAX_KEY_SIZE lim"
    and buf: "length buf = MAX_KEY_SIZE lim"
  shows "encode_key lim (MAX_KEY_SIZE lim) buf (Slice k) =
           Inr (0, (of_nat (length k) :: u8) # k @ replicate (SPLINTERDB_MAX_KEY_SIZE lim - length k) 0)"
proof -
  from sa have m: "MAX_KEY_SIZE lim = Suc (SPLINTERDB_MAX_KEY_SIZE lim)"
    by (simp add: static_asserts_def sizeof_var_len_key_encoding_def)
  show ?thesis
    using len buf
    by (cases k) (simp_all add: encode_key_def m memset_def memmove_at_def
          sizeof_var_len_key_encoding_def Let_def)
qed

lemma unat_key_length:
  assumes "static_asserts lim" "n \<le> SPLINTERDB_MAX_KEY_SIZE lim"
  shows "unat (of_nat n :: u8) = n"
proof -
  from assms have "n < 2 ^ LENGTH(8)"
    by (simp add: static_asserts_def UINT8_MAX_def)
  then show ?thesis
    by (simp add: unat_of_nat)
qed

lemma static_asserts_8_7:
  "static_asserts \<lparr>MAX_KEY_SIZE = 8, SPLINTERDB_MAX_KEY_SIZE = 7\<rparr>"
  by (simp add: static_asserts_def sizeof_var_len_key_encoding_def UINT8_MAX_def)

text \<open>
  C1, key round-trip. Under the static assertions, a logical key \<open>k\<close> of at most
  \<^verbatim>\<open>SPLINTERDB_MAX_KEY_SIZE\<close> bytes, encoded into a buffer of \<^verbatim>\<open>MAX_KEY_SIZE\<close> bytes with
  any previous content, is encoded with return code 0; the encoded buffer still has
  \<^verbatim>\<open>MAX_KEY_SIZE\<close> bytes; \<^verbatim>\<open>splinterdb_iterator_get_current\<close> reads exactly the bytes of
  \<open>k\<close> back from it; and every byte after the header and the payload is zero.
\<close>

theorem key_round_trip:
  assumes "static_asserts lim"
    and "length k \<le> SPLINTERDB_MAX_KEY_SIZE lim"
    and "length buf = MAX_KEY_SIZE lim"
  shows "\<exists>enc. encode_key lim (MAX_KEY_SIZE lim) buf (Slice k) = Inr (0, enc)
           \<and> length enc = MAX_KEY_SIZE lim
           \<and> splinterdb_iterator_get_current lim (Slice enc, msg) = Inr (Slice k, msg_data msg)
           \<and> drop (sizeof_var_len_key_encoding + length k) enc =
               replicate (MAX_KEY_SIZE lim - (sizeof_var_len_key_encoding + length k)) 0"
proof -
  let ?enc = "(of_nat (length k) :: u8) # k @ replicate (SPLINTERDB_MAX_KEY_SIZE lim - length k) 0"
  from assms(1) have m: "MAX_KEY_SIZE lim = Suc (SPLINTERDB_MAX_KEY_SIZE lim)"
    by (simp add: static_asserts_def sizeof_var_len_key_encoding_def)
  have e: "encode_key lim (MAX_KEY_SIZE lim) buf (Slice k) = Inr (0, ?enc)"
    using assms by (rule encode_key_ok)
  have l: "length ?enc = MAX_KEY_SIZE lim"
    using assms(2) by (simp add: m)
  have u: "unat (of_nat (length k) :: u8) = length k"
    using assms(1,2) by (rule unat_key_length)
  have d: "splinterdb_iterator_get_current lim (Slice ?enc, msg) = Inr (Slice k, msg_data msg)"
    using assms(2) by (simp add: splinterdb_iterator_get_current_def u slice_create_def)
  have z: "drop (sizeof_var_len_key_encoding + length k) ?enc =
             replicate (MAX_KEY_SIZE lim - (sizeof_var_len_key_encoding + length k)) 0"
    by (simp add: sizeof_var_len_key_encoding_def m)
  from e l d z show ?thesis by blast
qed

theorem key_round_trip_witness:
  "static_asserts \<lparr>MAX_KEY_SIZE = 8, SPLINTERDB_MAX_KEY_SIZE = 7\<rparr>
   \<and> (\<exists>enc. encode_key \<lparr>MAX_KEY_SIZE = 8, SPLINTERDB_MAX_KEY_SIZE = 7\<rparr> 8
               [1, 2, 3, 4, 5, 6, 7, 8] (Slice [97, 98, 99]) = Inr (0, enc)
           \<and> length enc = 8
           \<and> splinterdb_iterator_get_current \<lparr>MAX_KEY_SIZE = 8, SPLINTERDB_MAX_KEY_SIZE = 7\<rparr>
               (Slice enc, \<lparr>msg_type = MESSAGE_TYPE_INSERT, msg_data = Slice [5]\<rparr>) =
               Inr (Slice [97, 98, 99], Slice [5])
           \<and> drop 4 enc = [0, 0, 0, 0])"
  using static_asserts_8_7
    key_round_trip [OF static_asserts_8_7, of "[97, 98, 99]" "[1, 2, 3, 4, 5, 6, 7, 8]"
      "\<lparr>msg_type = MESSAGE_TYPE_INSERT, msg_data = Slice [5]\<rparr>"]
  by (simp add: sizeof_var_len_key_encoding_def numeral_eq_Suc)

text \<open>
  C2, comparator monotonicity under encoding. For logical keys \<open>a\<close> and \<open>b\<close> of at most
  \<^verbatim>\<open>SPLINTERDB_MAX_KEY_SIZE\<close> bytes and a shim whose application config has any
  comparator \<^verbatim>\<open>key_compare\<close>, both keys encode, the shim comparator returns on the two
  encoded keys, and the sign of its result is the sign of the application comparator on
  \<open>a\<close> and \<open>b\<close>.
\<close>

theorem shim_compare_sign:
  assumes "static_asserts lim"
    and "length a \<le> SPLINTERDB_MAX_KEY_SIZE lim"
    and "length b \<le> SPLINTERDB_MAX_KEY_SIZE lim"
    and "length buf_a = MAX_KEY_SIZE lim"
    and "length buf_b = MAX_KEY_SIZE lim"
    and "app_data_cfg cfg = Some app_cfg"
    and "key_compare app_cfg = Some app_key_compare"
  shows "\<exists>enc_a enc_b r.
           encode_key lim (MAX_KEY_SIZE lim) buf_a (Slice a) = Inr (0, enc_a)
         \<and> encode_key lim (MAX_KEY_SIZE lim) buf_b (Slice b) = Inr (0, enc_b)
         \<and> splinterdb_shim_key_compare lim cfg (Slice enc_a) (Slice enc_b) = Inr r
         \<and> sgn r = sgn (app_key_compare (Slice a) (Slice b))"
proof -
  let ?ea = "(of_nat (length a) :: u8) # a @ replicate (SPLINTERDB_MAX_KEY_SIZE lim - length a) 0"
  let ?eb = "(of_nat (length b) :: u8) # b @ replicate (SPLINTERDB_MAX_KEY_SIZE lim - length b) 0"
  have ea: "encode_key lim (MAX_KEY_SIZE lim) buf_a (Slice a) = Inr (0, ?ea)"
    using assms(1,2,4) by (rule encode_key_ok)
  have eb: "encode_key lim (MAX_KEY_SIZE lim) buf_b (Slice b) = Inr (0, ?eb)"
    using assms(1,3,5) by (rule encode_key_ok)
  have ua: "unat (of_nat (length a) :: u8) = length a"
    using assms(1,2) by (rule unat_key_length)
  have ub: "unat (of_nat (length b) :: u8) = length b"
    using assms(1,3) by (rule unat_key_length)
  have c: "splinterdb_shim_key_compare lim cfg (Slice ?ea) (Slice ?eb) =
             Inr (app_key_compare (Slice a) (Slice b))"
    using assms(2,3,6,7) by (simp add: splinterdb_shim_key_compare_def ua ub slice_create_def)
  from ea eb c show ?thesis by blast
qed

lemma static_asserts_example: "static_asserts example_limits"
  by (simp add: static_asserts_def example_limits_def sizeof_var_len_key_encoding_def UINT8_MAX_def)

theorem shim_compare_sign_witness:
  "\<exists>enc_a enc_b r.
      encode_key example_limits 16 (replicate 16 1) (Slice [97]) = Inr (0, enc_a)
    \<and> encode_key example_limits 16 (replicate 16 2) (Slice [97, 98]) = Inr (0, enc_b)
    \<and> splinterdb_shim_key_compare example_limits (shim_data_cfg example_kvs)
         (Slice enc_a) (Slice enc_b) = Inr r
    \<and> sgn r = - 1"
  using shim_compare_sign [OF static_asserts_example, of "[97]" "[97, 98]" "replicate 16 1"
      "replicate 16 2" "shim_data_cfg example_kvs" example_app_cfg example_key_compare]
  by (simp add: example_limits_def example_kvs_def example_app_cfg_def example_key_compare_def)

text \<open>
  C3, key-encode length rejection. A key longer than \<^verbatim>\<open>SPLINTERDB_MAX_KEY_SIZE\<close> makes
  \<^verbatim>\<open>encode_key\<close> return \<^verbatim>\<open>EINVAL\<close>, which is 22, and the output buffer is returned as it
  was passed, whatever the buffer and the length passed with it.
\<close>

theorem encode_key_rejects_long:
  assumes "slice_length in_key > SPLINTERDB_MAX_KEY_SIZE lim"
  shows "encode_key lim out_key_buffer_len out_key_buffer in_key = Inr (EINVAL, out_key_buffer)
         \<and> EINVAL = 22"
  using assms by (simp add: encode_key_def EINVAL_def)

theorem encode_key_rejects_long_witness:
  "slice_length (Slice [1, 2, 3, 4, 5, 6, 7, 8]) > 7
   \<and> encode_key \<lparr>MAX_KEY_SIZE = 8, SPLINTERDB_MAX_KEY_SIZE = 7\<rparr> 8 [9, 9, 9, 9, 9, 9, 9, 9]
       (Slice [1, 2, 3, 4, 5, 6, 7, 8]) = Inr (22, [9, 9, 9, 9, 9, 9, 9, 9])"
  using encode_key_rejects_long [of "\<lparr>MAX_KEY_SIZE = 8, SPLINTERDB_MAX_KEY_SIZE = 7\<rparr>"
      "Slice [1, 2, 3, 4, 5, 6, 7, 8]" 8 "[9, 9, 9, 9, 9, 9, 9, 9]"]
  by simp

subsection \<open>Message codec of the default data-config\<close>

lemma unat_plus_one_no_wrap:
  fixes value_len dst_len :: u64
  assumes "unat value_len + 1 \<le> unat dst_len"
  shows "unat (value_len + 1) = unat value_len + 1"
proof -
  have "unat dst_len < 2 ^ LENGTH(64)"
    by (rule unsigned_less)
  with assms have "unat value_len + unat (1 :: u64) < 2 ^ LENGTH(64)"
    by simp
  then have "unat (value_len + 1) = unat value_len + unat (1 :: u64)"
    by (simp only: unat_add_lem)
  then show ?thesis by simp
qed

lemma encode_message_fits:
  assumes "length val = unat value_len"
    and "length dst = unat dst_len"
    and "unat value_len + 1 \<le> unat dst_len"
  shows "encode_message type value_len val dst_len dst out =
           Inr (0, message_type_code type # val @ drop (1 + unat value_len) dst, 1 + value_len)"
proof -
  have nw: "unat (value_len + 1) = unat value_len + 1"
    using assms(3) by (rule unat_plus_one_no_wrap)
  have le: "\<not> dst_len < value_len + 1"
    using assms(3) by (simp add: word_less_nat_alt nw)
  from assms(2,3) obtain d ds where dst: "dst = d # ds"
    by (cases dst) auto
  have pos: "0 < value_len \<longleftrightarrow> 0 < unat value_len"
    by (simp add: word_less_nat_alt)
  show ?thesis
  proof (cases "value_len = 0")
    case True
    with assms(1) have "val = []" by simp
    with True le show ?thesis
      by (simp add: encode_message_def dst sizeof_message_encoding_def Let_def)
  next
    case False
    then have "0 < value_len" by (simp add: word_neq_0_conv)
    with le assms show ?thesis
      by (simp add: encode_message_def dst sizeof_message_encoding_def Let_def memmove_at_def)
  qed
qed

text \<open>
  C9, as the code has it. \<^verbatim>\<open>message_class\<close> classifies type byte 1 as Insert and type
  byte 2 as Delete, and fails its assertion on every other type byte: it never classifies a
  message as Update (or Invalid). \<^verbatim>\<open>encode_message\<close> does not look at the type: a message
  of any kind whose value fits the destination is encoded with return code 0 and the
  kind's tag in the first byte. So a message of kind Update is encoded, and it is
  \<^verbatim>\<open>message_class\<close> that rejects the encoded message, by its assertion.
\<close>

theorem update_rejected_by_message_class_only:
  assumes "length val = unat value_len"
    and "length dst = unat dst_len"
    and "unat value_len + 1 \<le> unat dst_len"
  shows "(\<exists>enc n. encode_message MESSAGE_TYPE_UPDATE value_len val dst_len dst out = Inr (0, enc, n)
           \<and> hd enc = message_type_code MESSAGE_TYPE_UPDATE
           \<and> message_class n enc = Inl Assert_failed
           \<and> message_class raw_msg_len raw_msg \<noteq> Inr MESSAGE_TYPE_UPDATE
           \<and> message_class raw_msg_len raw_msg \<noteq> Inr MESSAGE_TYPE_INVALID)
       \<and> message_class raw_msg_len (type_byte # msg_value) =
            (if type_byte = 1 then Inr MESSAGE_TYPE_INSERT
             else if type_byte = 2 then Inr MESSAGE_TYPE_DELETE
             else Inl Assert_failed)
       \<and> message_type_code MESSAGE_TYPE_INSERT = 1
       \<and> message_type_code MESSAGE_TYPE_DELETE = 2
       \<and> message_class raw_msg_len [] = Inl Out_of_bounds
       \<and> encode_message type value_len val dst_len dst out =
            Inr (0, message_type_code type # val @ drop (1 + unat value_len) dst, 1 + value_len)"
proof -
  let ?enc = "message_type_code MESSAGE_TYPE_UPDATE # val @ drop (1 + unat value_len) dst"
  have e: "encode_message t value_len val dst_len dst out =
             Inr (0, message_type_code t # val @ drop (1 + unat value_len) dst, 1 + value_len)" for t
    using assms by (rule encode_message_fits)
  have c: "message_class (1 + value_len) ?enc = Inl Assert_failed"
    by (simp add: message_class_def)
  have n: "message_class raw_msg_len raw_msg \<noteq> Inr MESSAGE_TYPE_UPDATE
         \<and> message_class raw_msg_len raw_msg \<noteq> Inr MESSAGE_TYPE_INVALID"
    by (cases raw_msg) (simp_all add: message_class_def)
  have k: "message_class raw_msg_len (type_byte # msg_value) =
            (if type_byte = 1 then Inr MESSAGE_TYPE_INSERT
             else if type_byte = 2 then Inr MESSAGE_TYPE_DELETE
             else Inl Assert_failed)"
    by (simp add: message_class_def)
  have o: "message_class raw_msg_len [] = Inl Out_of_bounds"
    by (simp add: message_class_def)
  from e [of MESSAGE_TYPE_UPDATE] e [of type] c n k o show ?thesis by simp
qed

theorem update_rejected_by_message_class_only_witness:
  "(\<exists>enc n. encode_message MESSAGE_TYPE_UPDATE 2 [7, 8] 3 [0, 0, 0] 0 = Inr (0, enc, n)
     \<and> hd enc = 3
     \<and> message_class n enc = Inl Assert_failed
     \<and> message_class 1 [1] \<noteq> Inr MESSAGE_TYPE_UPDATE
     \<and> message_class 1 [1] \<noteq> Inr MESSAGE_TYPE_INVALID)
   \<and> message_class 1 [0] = Inl Assert_failed
   \<and> message_class 1 [1] = Inr MESSAGE_TYPE_INSERT
   \<and> message_class 1 [2] = Inr MESSAGE_TYPE_DELETE
   \<and> message_class 1 [3] = Inl Assert_failed
   \<and> message_class 1 [4] = Inl Assert_failed
   \<and> message_class 1 [255] = Inl Assert_failed
   \<and> encode_message MESSAGE_TYPE_INSERT 2 [7, 8] 3 [0, 0, 0] 0 = Inr (0, [1, 7, 8], 3)"
  using update_rejected_by_message_class_only [of "[7, 8]" 2 "[0, 0, 0]" 3 0 1 "[1]" 0 "[]" MESSAGE_TYPE_INSERT]
    update_rejected_by_message_class_only [of "[7, 8]" 2 "[0, 0, 0]" 3 0 1 "[1]" 1 "[]" MESSAGE_TYPE_INSERT]
    update_rejected_by_message_class_only [of "[7, 8]" 2 "[0, 0, 0]" 3 0 1 "[1]" 2 "[]" MESSAGE_TYPE_INSERT]
    update_rejected_by_message_class_only [of "[7, 8]" 2 "[0, 0, 0]" 3 0 1 "[1]" 3 "[]" MESSAGE_TYPE_INSERT]
    update_rejected_by_message_class_only [of "[7, 8]" 2 "[0, 0, 0]" 3 0 1 "[1]" 4 "[]" MESSAGE_TYPE_INSERT]
    update_rejected_by_message_class_only [of "[7, 8]" 2 "[0, 0, 0]" 3 0 1 "[1]" 255 "[]" MESSAGE_TYPE_INSERT]
  by simp

text \<open>
  The claim C9 as written says that \<^verbatim>\<open>encode_message\<close> fails for type Update. It returns 0
  on this input.
\<close>

theorem encode_message_accepts_update:
  "encode_message MESSAGE_TYPE_UPDATE 2 [7, 8] 3 [0, 0, 0] 0 = Inr (0, [3, 7, 8], 3)"
  by (simp add: encode_message_def sizeof_message_encoding_def memmove_at_def Let_def)

text \<open>
  C10, the type tag is stored before the capacity check. For a destination that has a
  first byte, whenever the code's test \<^verbatim>\<open>value_len + sizeof(message_encoding) >
  dst_msg_buffer_len\<close> holds (in \<^verbatim>\<open>size_t\<close> arithmetic), \<^verbatim>\<open>encode_message\<close> returns
  \<^verbatim>\<open>EINVAL\<close>, which is 22, and leaves the destination with its first byte overwritten by
  the type tag and the other bytes as they were; \<^verbatim>\<open>*out_encoded_len\<close> is not written.
\<close>

theorem encode_message_tag_before_check:
  assumes "dst_msg_buffer \<noteq> []"
    and "value_len + sizeof_message_encoding > dst_msg_buffer_len"
  shows "encode_message type value_len val dst_msg_buffer_len dst_msg_buffer out_encoded_len =
           Inr (EINVAL, dst_msg_buffer[0 := message_type_code type], out_encoded_len)
         \<and> EINVAL = 22
         \<and> hd (dst_msg_buffer[0 := message_type_code type]) = message_type_code type
         \<and> tl (dst_msg_buffer[0 := message_type_code type]) = tl dst_msg_buffer"
  using assms by (cases dst_msg_buffer) (simp_all add: encode_message_def EINVAL_def Let_def)

theorem encode_message_tag_before_check_witness:
  "[0, 0] \<noteq> ([] :: u8 list) \<and> (2 :: u64) + sizeof_message_encoding > 2
   \<and> encode_message MESSAGE_TYPE_INSERT 2 [7, 8] 2 [0, 0] 9 = Inr (22, [1, 0], 9)"
  using encode_message_tag_before_check [of "[0, 0]" 2 2 MESSAGE_TYPE_INSERT "[7, 8]" 9]
  by (simp add: sizeof_message_encoding_def)

subsection \<open>Configuration defaults\<close>

lemma set_default_steps:
  fixes cfg :: splinterdb_config
  shows "(if c then cfg\<lparr>page_size := d1\<rparr> else cfg) =
           cfg\<lparr>page_size := (if c then d1 else page_size cfg)\<rparr>"
    and "(if c then cfg\<lparr>extent_size := d2\<rparr> else cfg) =
           cfg\<lparr>extent_size := (if c then d2 else extent_size cfg)\<rparr>"
    and "(if c then cfg\<lparr>io_flags := d3\<rparr> else cfg) =
           cfg\<lparr>io_flags := (if c then d3 else io_flags cfg)\<rparr>"
    and "(if c then cfg\<lparr>io_perms := d4\<rparr> else cfg) =
           cfg\<lparr>io_perms := (if c then d4 else io_perms cfg)\<rparr>"
    and "(if c then cfg\<lparr>io_async_queue_depth := d5\<rparr> else cfg) =
           cfg\<lparr>io_async_queue_depth := (if c then d5 else io_async_queue_depth cfg)\<rparr>"
    and "(if c then cfg\<lparr>btree_rough_count_height := d6\<rparr> else cfg) =
           cfg\<lparr>btree_rough_count_height := (if c then d6 else btree_rough_count_height cfg)\<rparr>"
    and "(if c then cfg\<lparr>filter_index_size := d7\<rparr> else cfg) =
           cfg\<lparr>filter_index_size := (if c then d7 else filter_index_size cfg)\<rparr>"
    and "(if c then cfg\<lparr>filter_remainder_size := d8\<rparr> else cfg) =
           cfg\<lparr>filter_remainder_size := (if c then d8 else filter_remainder_size cfg)\<rparr>"
    and "(if c then cfg\<lparr>memtable_capacity := d9\<rparr> else cfg) =
           cfg\<lparr>memtable_capacity := (if c then d9 else memtable_capacity cfg)\<rparr>"
    and "(if c then cfg\<lparr>fanout := d10\<rparr> else cfg) =
           cfg\<lparr>fanout := (if c then d10 else fanout cfg)\<rparr>"
    and "(if c then cfg\<lparr>max_branches_per_node := d11\<rparr> else cfg) =
           cfg\<lparr>max_branches_per_node := (if c then d11 else max_branches_per_node cfg)\<rparr>"
    and "(if c then cfg\<lparr>reclaim_threshold := d12\<rparr> else cfg) =
           cfg\<lparr>reclaim_threshold := (if c then d12 else reclaim_threshold cfg)\<rparr>"
  by simp_all

text \<open>
  C5, as the code has it. With the two macros at the values the spec lists
  (\<^verbatim>\<open>LAIO_DEFAULT_PAGE_SIZE\<close> = 4096, \<^verbatim>\<open>LAIO_DEFAULT_EXTENT_SIZE\<close> = 128 times 4096),
  \<^verbatim>\<open>splinterdb_config_set_defaults\<close> returns the configuration it was given with each of
  the twelve fields replaced by its default when it was zero and kept when it was not;
  every other field is the caller's. The default extent size is the constant 128 times
  4096, whatever the page size of the configuration is. \<^verbatim>\<open>O_RDWR | O_CREAT\<close> is 66, octal
  755 is 493, 24 MiB is 24 times 1024 times 1024, and \<^verbatim>\<open>UINT64_MAX\<close> is the largest 64-bit
  value.
\<close>

theorem config_defaults_only_zero_fields:
  "splinterdb_config_set_defaults
     \<lparr>LAIO_DEFAULT_PAGE_SIZE = 4096, LAIO_DEFAULT_EXTENT_SIZE = 128 * 4096\<rparr> cfg =
   cfg\<lparr>page_size := (if page_size cfg = 0 then 4096 else page_size cfg),
       extent_size := (if extent_size cfg = 0 then 128 * 4096 else extent_size cfg),
       io_flags := (if io_flags cfg = 0 then O_RDWR OR O_CREAT else io_flags cfg),
       io_perms := (if io_perms cfg = 0 then 493 else io_perms cfg),
       io_async_queue_depth :=
         (if io_async_queue_depth cfg = 0 then 256 else io_async_queue_depth cfg),
       btree_rough_count_height :=
         (if btree_rough_count_height cfg = 0 then 1 else btree_rough_count_height cfg),
       filter_index_size := (if filter_index_size cfg = 0 then 256 else filter_index_size cfg),
       filter_remainder_size :=
         (if filter_remainder_size cfg = 0 then 6 else filter_remainder_size cfg),
       memtable_capacity :=
         (if memtable_capacity cfg = 0 then 24 * 1024 * 1024 else memtable_capacity cfg),
       fanout := (if fanout cfg = 0 then 8 else fanout cfg),
       max_branches_per_node :=
         (if max_branches_per_node cfg = 0 then 24 else max_branches_per_node cfg),
       reclaim_threshold :=
         (if reclaim_threshold cfg = 0 then UINT64_MAX else reclaim_threshold cfg)\<rparr>
   \<and> unat UINT64_MAX = 2 ^ 64 - 1
   \<and> O_RDWR OR O_CREAT = 66"
proof -
  have "splinterdb_config_set_defaults
     \<lparr>LAIO_DEFAULT_PAGE_SIZE = 4096, LAIO_DEFAULT_EXTENT_SIZE = 128 * 4096\<rparr> cfg =
   cfg\<lparr>page_size := (if page_size cfg = 0 then 4096 else page_size cfg),
       extent_size := (if extent_size cfg = 0 then 128 * 4096 else extent_size cfg),
       io_flags := (if io_flags cfg = 0 then O_RDWR OR O_CREAT else io_flags cfg),
       io_perms := (if io_perms cfg = 0 then 493 else io_perms cfg),
       io_async_queue_depth :=
         (if io_async_queue_depth cfg = 0 then 256 else io_async_queue_depth cfg),
       btree_rough_count_height :=
         (if btree_rough_count_height cfg = 0 then 1 else btree_rough_count_height cfg),
       filter_index_size := (if filter_index_size cfg = 0 then 256 else filter_index_size cfg),
       filter_remainder_size :=
         (if filter_remainder_size cfg = 0 then 6 else filter_remainder_size cfg),
       memtable_capacity :=
         (if memtable_capacity cfg = 0 then 24 * 1024 * 1024 else memtable_capacity cfg),
       fanout := (if fanout cfg = 0 then 8 else fanout cfg),
       max_branches_per_node :=
         (if max_branches_per_node cfg = 0 then 24 else max_branches_per_node cfg),
       reclaim_threshold :=
         (if reclaim_threshold cfg = 0 then UINT64_MAX else reclaim_threshold cfg)\<rparr>"
    by (simp add: splinterdb_config_set_defaults_def set_default_steps Let_def MiB_TO_B_def
          split del: if_split cong: if_cong)
  moreover have "unat UINT64_MAX = 2 ^ 64 - 1"
    by (simp add: UINT64_MAX_def)
  moreover have "O_RDWR OR O_CREAT = 66"
    by (simp add: O_RDWR_def O_CREAT_def)
  ultimately show ?thesis by (simp only: simp_thms)
qed

lemma set_defaults_extent_size:
  "extent_size (splinterdb_config_set_defaults laio cfg) =
     (if extent_size cfg = 0 then LAIO_DEFAULT_EXTENT_SIZE laio else extent_size cfg)"
  by (simp add: splinterdb_config_set_defaults_def set_default_steps Let_def
        split del: if_split cong: if_cong)

lemma set_defaults_page_size:
  "page_size (splinterdb_config_set_defaults laio cfg) =
     (if page_size cfg = 0 then LAIO_DEFAULT_PAGE_SIZE laio else page_size cfg)"
  by (simp add: splinterdb_config_set_defaults_def set_default_steps Let_def
        split del: if_split cong: if_cong)

text \<open>
  Whatever value the macro \<^verbatim>\<open>LAIO_DEFAULT_EXTENT_SIZE\<close> has, the default extent size is not
  128 times the page size for both a caller who sets the page size 4096 and one who sets
  8192.
\<close>

lemma default_extent_size_not_page_multiple:
  "extent_size (splinterdb_config_set_defaults laio (cfg\<lparr>page_size := 4096, extent_size := 0\<rparr>))
     \<noteq> 128 * page_size (splinterdb_config_set_defaults laio (cfg\<lparr>page_size := 4096, extent_size := 0\<rparr>))
   \<or> extent_size (splinterdb_config_set_defaults laio (cfg\<lparr>page_size := 8192, extent_size := 0\<rparr>))
     \<noteq> 128 * page_size (splinterdb_config_set_defaults laio (cfg\<lparr>page_size := 8192, extent_size := 0\<rparr>))"
  by (simp add: set_defaults_extent_size set_defaults_page_size)

text \<open>
  The claim C5 as written says that an extent size left zero becomes 128 times the page
  size. A caller who sets the page size 8192 and leaves the extent size zero gets the
  extent size 524288, which is 64 times that page size.
\<close>

theorem default_extent_size_ignores_page_size:
  "page_size (splinterdb_config_set_defaults
       \<lparr>LAIO_DEFAULT_PAGE_SIZE = 4096, LAIO_DEFAULT_EXTENT_SIZE = 128 * 4096\<rparr>
       (example_cfg\<lparr>page_size := 8192\<rparr>)) = 8192
   \<and> extent_size (splinterdb_config_set_defaults
       \<lparr>LAIO_DEFAULT_PAGE_SIZE = 4096, LAIO_DEFAULT_EXTENT_SIZE = 128 * 4096\<rparr>
       (example_cfg\<lparr>page_size := 8192\<rparr>)) = 524288
   \<and> (524288 :: u64) \<noteq> 128 * 8192"
  by (simp add: set_defaults_extent_size set_defaults_page_size example_cfg_def)

subsection \<open>Point operations\<close>

text \<open>
  C4, point-operation key-length validation. For a store whose application config is set
  and a key longer than that config's \<^verbatim>\<open>key_size\<close>, each of \<^verbatim>\<open>splinterdb_insert\<close>,
  \<^verbatim>\<open>splinterdb_delete\<close>, \<^verbatim>\<open>splinterdb_update\<close> and \<^verbatim>\<open>splinterdb_lookup\<close> returns \<^verbatim>\<open>EINVAL\<close>,
  which is 22, and makes no call: the list of calls to the engine is the one it was given.
\<close>

theorem overlong_key_rejected:
  assumes "app_data_cfg (shim_data_cfg kvs) = Some app_cfg"
    and "slice_length key > key_size app_cfg"
  shows "splinterdb_insert lim ext (Some kvs) key val tr = Inr (EINVAL, tr)
       \<and> splinterdb_delete lim ext (Some kvs) key tr = Inr (EINVAL, tr)
       \<and> splinterdb_update lim ext (Some kvs) key val tr = Inr (EINVAL, tr)
       \<and> splinterdb_lookup lim ext (Some kvs) key tr = Inr (EINVAL, tr)
       \<and> EINVAL = 22"
  using assms
  by (simp add: splinterdb_insert_def splinterdb_delete_def splinterdb_update_def
        splinterdb_lookup_def splinterdb_insert_message_def validate_key_length_def EINVAL_def)

theorem overlong_key_rejected_witness:
  "slice_length (Slice [97, 98, 99, 100, 101, 102, 103, 104, 105]) > key_size example_app_cfg
   \<and> splinterdb_insert example_limits example_extern (Some example_kvs)
        (Slice [97, 98, 99, 100, 101, 102, 103, 104, 105]) (Slice [1]) [] = Inr (22, [])
   \<and> splinterdb_delete example_limits example_extern (Some example_kvs)
        (Slice [97, 98, 99, 100, 101, 102, 103, 104, 105]) [] = Inr (22, [])
   \<and> splinterdb_update example_limits example_extern (Some example_kvs)
        (Slice [97, 98, 99, 100, 101, 102, 103, 104, 105]) (Slice [1]) [] = Inr (22, [])
   \<and> splinterdb_lookup example_limits example_extern (Some example_kvs)
        (Slice [97, 98, 99, 100, 101, 102, 103, 104, 105]) [] = Inr (22, [])"
  using overlong_key_rejected [of example_kvs example_app_cfg
      "Slice [97, 98, 99, 100, 101, 102, 103, 104, 105]" example_limits example_extern
      "Slice [1]" "[]"]
  by (simp add: example_kvs_def example_app_cfg_def)

subsection \<open>Opening a store\<close>

lemma validate_bad_param:
  assumes "key_size c > 0" "key_compare c = Some cmp" "key_hash c \<noteq> None"
    "merge_tuples c \<noteq> None" "merge_tuples_final c \<noteq> None" "key_to_string c \<noteq> None"
    "message_to_string c \<noteq> None"
    and "key_size c > SPLINTERDB_MAX_KEY_SIZE lim"
  shows "splinterdb_validate_app_data_config lim c = Inr STATUS_BAD_PARAM"
  using assms by (simp add: splinterdb_validate_app_data_config_def)

lemma validate_ok:
  assumes "key_size c > 0" "key_compare c = Some cmp" "key_hash c \<noteq> None"
    "merge_tuples c \<noteq> None" "merge_tuples_final c \<noteq> None" "key_to_string c \<noteq> None"
    "message_to_string c \<noteq> None"
    and "\<not> key_size c > SPLINTERDB_MAX_KEY_SIZE lim"
    and "0 < max_key_length c" "max_key_length c \<le> key_size c" "min_key_length c \<le> key_size c"
    and "cmp (slice_create (min_key_length c) (min_key c))
             (slice_create (max_key_length c) (max_key c)) < 0"
  shows "splinterdb_validate_app_data_config lim c = Inr STATUS_OK"
  using assms by (simp add: splinterdb_validate_app_data_config_def Let_def)

lemma init_config_bad_param:
  fixes kvs_cfg :: splinterdb_config
  assumes "key_size (data_cfg kvs_cfg) > 0" "key_compare (data_cfg kvs_cfg) = Some cmp"
    "key_hash (data_cfg kvs_cfg) \<noteq> None" "merge_tuples (data_cfg kvs_cfg) \<noteq> None"
    "merge_tuples_final (data_cfg kvs_cfg) \<noteq> None" "key_to_string (data_cfg kvs_cfg) \<noteq> None"
    "message_to_string (data_cfg kvs_cfg) \<noteq> None"
    and bad: "key_size (data_cfg kvs_cfg) > SPLINTERDB_MAX_KEY_SIZE lim
       \<or> (0 < max_key_length (data_cfg kvs_cfg)
          \<and> max_key_length (data_cfg kvs_cfg) \<le> key_size (data_cfg kvs_cfg)
          \<and> min_key_length (data_cfg kvs_cfg) \<le> key_size (data_cfg kvs_cfg)
          \<and> cmp (slice_create (min_key_length (data_cfg kvs_cfg)) (min_key (data_cfg kvs_cfg)))
                 (slice_create (max_key_length (data_cfg kvs_cfg)) (max_key (data_cfg kvs_cfg))) < 0
          \<and> (filename kvs_cfg = None \<or> cache_size kvs_cfg = 0 \<or> disk_size kvs_cfg = 0))"
  shows "splinterdb_init_config lim laio ext kvs_cfg kvs tr = Inr (STATUS_BAD_PARAM, kvs_cfg, kvs, tr)"
proof (cases "key_size (data_cfg kvs_cfg) > SPLINTERDB_MAX_KEY_SIZE lim")
  case True
  with assms(1-7) have "splinterdb_validate_app_data_config lim (data_cfg kvs_cfg) = Inr STATUS_BAD_PARAM"
    by (rule validate_bad_param)
  then show ?thesis
    by (simp add: splinterdb_init_config_def SUCCESS_def STATUS_BAD_PARAM_def EINVAL_def)
next
  case False
  with bad have rest: "0 < max_key_length (data_cfg kvs_cfg)"
      "max_key_length (data_cfg kvs_cfg) \<le> key_size (data_cfg kvs_cfg)"
      "min_key_length (data_cfg kvs_cfg) \<le> key_size (data_cfg kvs_cfg)"
      "cmp (slice_create (min_key_length (data_cfg kvs_cfg)) (min_key (data_cfg kvs_cfg)))
           (slice_create (max_key_length (data_cfg kvs_cfg)) (max_key (data_cfg kvs_cfg))) < 0"
      and req: "filename kvs_cfg = None \<or> cache_size kvs_cfg = 0 \<or> disk_size kvs_cfg = 0"
    by auto
  from assms(1-7) False rest
  have "splinterdb_validate_app_data_config lim (data_cfg kvs_cfg) = Inr STATUS_OK"
    by (rule validate_ok)
  with req show ?thesis
    by (simp add: splinterdb_init_config_def SUCCESS_def STATUS_OK_def)
qed

lemma open_bad_param:
  fixes kvs_cfg :: splinterdb_config
  assumes heap: "\<not> (use_shmem kvs_cfg \<and> heap_handle kvs_cfg = None)
                 \<or> SUCCESS (platform_heap_create_rc ext)"
    and out: "kvs_out = Some p"
    and alloc: "typed_zalloc_kvs ext"
    and asserts: "key_size (data_cfg kvs_cfg) > 0" "key_compare (data_cfg kvs_cfg) = Some cmp"
      "key_hash (data_cfg kvs_cfg) \<noteq> None" "merge_tuples (data_cfg kvs_cfg) \<noteq> None"
      "merge_tuples_final (data_cfg kvs_cfg) \<noteq> None" "key_to_string (data_cfg kvs_cfg) \<noteq> None"
      "message_to_string (data_cfg kvs_cfg) \<noteq> None"
    and bad: "key_size (data_cfg kvs_cfg) > SPLINTERDB_MAX_KEY_SIZE lim
       \<or> (0 < max_key_length (data_cfg kvs_cfg)
          \<and> max_key_length (data_cfg kvs_cfg) \<le> key_size (data_cfg kvs_cfg)
          \<and> min_key_length (data_cfg kvs_cfg) \<le> key_size (data_cfg kvs_cfg)
          \<and> cmp (slice_create (min_key_length (data_cfg kvs_cfg)) (min_key (data_cfg kvs_cfg)))
                 (slice_create (max_key_length (data_cfg kvs_cfg)) (max_key (data_cfg kvs_cfg))) < 0
          \<and> (filename kvs_cfg = None \<or> cache_size kvs_cfg = 0 \<or> disk_size kvs_cfg = 0))"
  shows "\<exists>cfg' tr'.
           splinterdb_create lim laio ext kvs_cfg kvs_out tr =
             Inr (22, cfg', kvs_out, tr' @ [Platform_free_kvs (heap_id cfg')])
         \<and> splinterdb_open lim laio ext kvs_cfg kvs_out tr =
             Inr (22, cfg', kvs_out, tr' @ [Platform_free_kvs (heap_id cfg')])"
proof -
  define shmem where "shmem \<longleftrightarrow> use_shmem kvs_cfg \<and> heap_handle kvs_cfg = None"
  define cfg1 where "cfg1 = (if shmem
                         then kvs_cfg\<lparr>heap_handle := platform_heap_create_handle ext,
                                      heap_id := platform_heap_create_id ext\<rparr>
                         else kvs_cfg)"
  define tr1 where "tr1 = (if shmem then tr @ [Platform_heap_create] else tr)
                      @ (if shmem \<and> trace_shmem_allocs cfg1 then [Set_Trace_shmem_allocs] else [])
                      @ (if shmem \<and> trace_shmem_frees cfg1 then [Set_Trace_shmem_frees] else [])
                      @ (if shmem \<and> trace_shmem cfg1
                         then [Set_Trace_shmem_allocs, Set_Trace_shmem_frees] else [])
                      @ [Typed_zalloc_kvs (heap_id cfg1)]"
  have same: "data_cfg cfg1 = data_cfg kvs_cfg" "filename cfg1 = filename kvs_cfg"
    "cache_size cfg1 = cache_size kvs_cfg" "disk_size cfg1 = disk_size kvs_cfg"
    by (simp_all add: cfg1_def)
  have init: "splinterdb_init_config lim laio ext cfg1 (zalloc_splinterdb lim) tr1 =
                Inr (STATUS_BAD_PARAM, cfg1, zalloc_splinterdb lim, tr1)"
    using init_config_bad_param [of cfg1 cmp lim laio ext "zalloc_splinterdb lim" tr1] asserts bad
    by (simp add: same)
  have ok: "\<not> (shmem \<and> \<not> SUCCESS (platform_heap_create_rc ext))"
    using heap by (auto simp: shmem_def)
  have "splinterdb_create_or_open lim laio ext kvs_cfg kvs_out b tr =
          Inr (22, cfg1, kvs_out, tr1 @ [Platform_free_kvs (heap_id cfg1)])" for b
    unfolding splinterdb_create_or_open_def Let_def shmem_def [symmetric]
    using ok out alloc init
    by (simp add: cfg1_def [symmetric] tr1_def [symmetric] deinit_kvhandle_def zalloc_splinterdb_def
          SUCCESS_def STATUS_BAD_PARAM_def EINVAL_def platform_status_to_int_def)
  then show ?thesis
    by (auto simp: splinterdb_create_def splinterdb_open_def)
qed

lemma validate_assert_early:
  assumes "key_size c = 0 \<or> key_compare c = None \<or> key_hash c = None \<or> merge_tuples c = None
           \<or> merge_tuples_final c = None \<or> key_to_string c = None \<or> message_to_string c = None"
  shows "splinterdb_validate_app_data_config lim c = Inl Assert_failed"
  using assms by (auto simp: splinterdb_validate_app_data_config_def)

lemma validate_assert_late:
  assumes "key_size c > 0" "key_compare c = Some cmp" "key_hash c \<noteq> None"
    "merge_tuples c \<noteq> None" "merge_tuples_final c \<noteq> None" "key_to_string c \<noteq> None"
    "message_to_string c \<noteq> None"
    and "key_size c \<le> SPLINTERDB_MAX_KEY_SIZE lim"
    and "max_key_length c = 0 \<or> key_size c < max_key_length c \<or> key_size c < min_key_length c
         \<or> 0 \<le> cmp (slice_create (min_key_length c) (min_key c))
                     (slice_create (max_key_length c) (max_key c))"
  shows "splinterdb_validate_app_data_config lim c = Inl Assert_failed"
  using assms by (auto simp: splinterdb_validate_app_data_config_def Let_def)

lemma open_validate_fault:
  fixes kvs_cfg :: splinterdb_config
  assumes heap: "\<not> (use_shmem kvs_cfg \<and> heap_handle kvs_cfg = None)
                 \<or> SUCCESS (platform_heap_create_rc ext)"
    and out: "kvs_out = Some p"
    and alloc: "typed_zalloc_kvs ext"
    and v: "splinterdb_validate_app_data_config lim (data_cfg kvs_cfg) = Inl f"
  shows "splinterdb_create lim laio ext kvs_cfg kvs_out tr = Inl f
       \<and> splinterdb_open lim laio ext kvs_cfg kvs_out tr = Inl f"
proof -
  define shmem where "shmem \<longleftrightarrow> use_shmem kvs_cfg \<and> heap_handle kvs_cfg = None"
  define cfg1 where "cfg1 = (if shmem
                         then kvs_cfg\<lparr>heap_handle := platform_heap_create_handle ext,
                                      heap_id := platform_heap_create_id ext\<rparr>
                         else kvs_cfg)"
  have same: "data_cfg cfg1 = data_cfg kvs_cfg"
    by (simp add: cfg1_def)
  have init: "splinterdb_init_config lim laio ext cfg1 kvs t = Inl f" for kvs t
    using v by (simp add: splinterdb_init_config_def same)
  have ok: "\<not> (shmem \<and> \<not> SUCCESS (platform_heap_create_rc ext))"
    using heap by (auto simp: shmem_def)
  have "splinterdb_create_or_open lim laio ext kvs_cfg kvs_out b tr = Inl f" for b
    unfolding splinterdb_create_or_open_def Let_def shmem_def [symmetric]
    using ok out alloc
    by (auto simp: cfg1_def [symmetric] init)
  then show ?thesis
    by (simp add: splinterdb_create_def splinterdb_open_def)
qed

text \<open>
  C6, as the code has it. Take a call to create or open in which the shared heap, if one
  is requested, is created, \<^verbatim>\<open>kvs_out\<close> is not null and the store object is allocated; let
  \<open>c\<close> be the application config.
  \<^item> If \<^verbatim>\<open>key_size\<close> is 0 or one of the six callbacks is null, the call fails an assertion.
  \<^item> Otherwise, if \<^verbatim>\<open>key_size\<close> exceeds \<^verbatim>\<open>SPLINTERDB_MAX_KEY_SIZE\<close>, the call returns 22
    (BadParam), leaves the caller's pointer variable as it was, and its last call frees
    the store object.
  \<^item> Otherwise, if \<^verbatim>\<open>max_key_length\<close> is 0 or exceeds \<^verbatim>\<open>key_size\<close>, or \<^verbatim>\<open>min_key_length\<close>
    exceeds \<^verbatim>\<open>key_size\<close>, or the minimum key does not compare below the maximum key, the
    call fails an assertion.
  \<^item> Otherwise the config passes validation, whatever \<^verbatim>\<open>min_key_length\<close> is (0 included);
    and if \<^verbatim>\<open>filename\<close> is null or \<^verbatim>\<open>cache_size\<close> or \<^verbatim>\<open>disk_size\<close> is zero, the call
    returns 22 (BadParam), leaves the caller's pointer variable as it was, and its last
    call frees the store object.
\<close>

theorem open_validation_outcomes:
  fixes kvs_cfg :: splinterdb_config
  assumes heap: "\<not> (use_shmem kvs_cfg \<and> heap_handle kvs_cfg = None)
                 \<or> SUCCESS (platform_heap_create_rc ext)"
    and out: "kvs_out = Some p"
    and alloc: "typed_zalloc_kvs ext"
    and c: "c = data_cfg kvs_cfg"
  shows
    "(key_size c = 0 \<or> key_compare c = None \<or> key_hash c = None \<or> merge_tuples c = None
        \<or> merge_tuples_final c = None \<or> key_to_string c = None \<or> message_to_string c = None
      \<longrightarrow> splinterdb_create lim laio ext kvs_cfg kvs_out tr = Inl Assert_failed
        \<and> splinterdb_open lim laio ext kvs_cfg kvs_out tr = Inl Assert_failed)
   \<and> (0 < key_size c \<and> key_compare c = Some cmp \<and> key_hash c \<noteq> None \<and> merge_tuples c \<noteq> None
        \<and> merge_tuples_final c \<noteq> None \<and> key_to_string c \<noteq> None \<and> message_to_string c \<noteq> None
      \<longrightarrow>
        (SPLINTERDB_MAX_KEY_SIZE lim < key_size c
         \<longrightarrow> (\<exists>cfg' tr'.
                splinterdb_create lim laio ext kvs_cfg kvs_out tr =
                  Inr (22, cfg', kvs_out, tr' @ [Platform_free_kvs (heap_id cfg')])
              \<and> splinterdb_open lim laio ext kvs_cfg kvs_out tr =
                  Inr (22, cfg', kvs_out, tr' @ [Platform_free_kvs (heap_id cfg')])))
      \<and> (key_size c \<le> SPLINTERDB_MAX_KEY_SIZE lim
           \<and> (max_key_length c = 0 \<or> key_size c < max_key_length c
                \<or> key_size c < min_key_length c
                \<or> 0 \<le> cmp (slice_create (min_key_length c) (min_key c))
                            (slice_create (max_key_length c) (max_key c)))
         \<longrightarrow> splinterdb_create lim laio ext kvs_cfg kvs_out tr = Inl Assert_failed
           \<and> splinterdb_open lim laio ext kvs_cfg kvs_out tr = Inl Assert_failed)
      \<and> (key_size c \<le> SPLINTERDB_MAX_KEY_SIZE lim
           \<and> 0 < max_key_length c \<and> max_key_length c \<le> key_size c
           \<and> min_key_length c \<le> key_size c
           \<and> cmp (slice_create (min_key_length c) (min_key c))
                  (slice_create (max_key_length c) (max_key c)) < 0
         \<longrightarrow> splinterdb_validate_app_data_config lim c = Inr STATUS_OK
           \<and> (filename kvs_cfg = None \<or> cache_size kvs_cfg = 0 \<or> disk_size kvs_cfg = 0
              \<longrightarrow> (\<exists>cfg' tr'.
                     splinterdb_create lim laio ext kvs_cfg kvs_out tr =
                       Inr (22, cfg', kvs_out, tr' @ [Platform_free_kvs (heap_id cfg')])
                   \<and> splinterdb_open lim laio ext kvs_cfg kvs_out tr =
                       Inr (22, cfg', kvs_out, tr' @ [Platform_free_kvs (heap_id cfg')])))))"
proof (intro conjI impI)
  assume "key_size c = 0 \<or> key_compare c = None \<or> key_hash c = None \<or> merge_tuples c = None
        \<or> merge_tuples_final c = None \<or> key_to_string c = None \<or> message_to_string c = None"
  then have "splinterdb_validate_app_data_config lim (data_cfg kvs_cfg) = Inl Assert_failed"
    unfolding c by (rule validate_assert_early)
  with heap out alloc
  have r: "splinterdb_create lim laio ext kvs_cfg kvs_out tr = Inl Assert_failed
       \<and> splinterdb_open lim laio ext kvs_cfg kvs_out tr = Inl Assert_failed"
    by (rule open_validate_fault)
  from r show "splinterdb_create lim laio ext kvs_cfg kvs_out tr = Inl Assert_failed" ..
  from r show "splinterdb_open lim laio ext kvs_cfg kvs_out tr = Inl Assert_failed" ..
next
  assume pre: "0 < key_size c \<and> key_compare c = Some cmp \<and> key_hash c \<noteq> None \<and> merge_tuples c \<noteq> None
        \<and> merge_tuples_final c \<noteq> None \<and> key_to_string c \<noteq> None \<and> message_to_string c \<noteq> None"
    and big: "SPLINTERDB_MAX_KEY_SIZE lim < key_size c"
  show "\<exists>cfg' tr'.
                splinterdb_create lim laio ext kvs_cfg kvs_out tr =
                  Inr (22, cfg', kvs_out, tr' @ [Platform_free_kvs (heap_id cfg')])
              \<and> splinterdb_open lim laio ext kvs_cfg kvs_out tr =
                  Inr (22, cfg', kvs_out, tr' @ [Platform_free_kvs (heap_id cfg')])"
    using open_bad_param [OF heap out alloc, of cmp lim laio tr] pre big
    by (simp add: c)
next
  assume pre: "0 < key_size c \<and> key_compare c = Some cmp \<and> key_hash c \<noteq> None \<and> merge_tuples c \<noteq> None
        \<and> merge_tuples_final c \<noteq> None \<and> key_to_string c \<noteq> None \<and> message_to_string c \<noteq> None"
    and late: "key_size c \<le> SPLINTERDB_MAX_KEY_SIZE lim
           \<and> (max_key_length c = 0 \<or> key_size c < max_key_length c
                \<or> key_size c < min_key_length c
                \<or> 0 \<le> cmp (slice_create (min_key_length c) (min_key c))
                            (slice_create (max_key_length c) (max_key c)))"
  have "splinterdb_validate_app_data_config lim c = Inl Assert_failed"
    by (rule validate_assert_late [where cmp = cmp]) (use pre late in simp_all)
  then have "splinterdb_validate_app_data_config lim (data_cfg kvs_cfg) = Inl Assert_failed"
    by (simp add: c)
  with heap out alloc
  have r: "splinterdb_create lim laio ext kvs_cfg kvs_out tr = Inl Assert_failed
       \<and> splinterdb_open lim laio ext kvs_cfg kvs_out tr = Inl Assert_failed"
    by (rule open_validate_fault)
  from r show "splinterdb_create lim laio ext kvs_cfg kvs_out tr = Inl Assert_failed" ..
  from r show "splinterdb_open lim laio ext kvs_cfg kvs_out tr = Inl Assert_failed" ..
next
  assume pre: "0 < key_size c \<and> key_compare c = Some cmp \<and> key_hash c \<noteq> None \<and> merge_tuples c \<noteq> None
        \<and> merge_tuples_final c \<noteq> None \<and> key_to_string c \<noteq> None \<and> message_to_string c \<noteq> None"
    and good: "key_size c \<le> SPLINTERDB_MAX_KEY_SIZE lim
           \<and> 0 < max_key_length c \<and> max_key_length c \<le> key_size c
           \<and> min_key_length c \<le> key_size c
           \<and> cmp (slice_create (min_key_length c) (min_key c))
                  (slice_create (max_key_length c) (max_key c)) < 0"
  show "splinterdb_validate_app_data_config lim c = Inr STATUS_OK"
    by (rule validate_ok [where cmp = cmp]) (use pre good in simp_all)
  assume req: "filename kvs_cfg = None \<or> cache_size kvs_cfg = 0 \<or> disk_size kvs_cfg = 0"
  show "\<exists>cfg' tr'.
                splinterdb_create lim laio ext kvs_cfg kvs_out tr =
                  Inr (22, cfg', kvs_out, tr' @ [Platform_free_kvs (heap_id cfg')])
              \<and> splinterdb_open lim laio ext kvs_cfg kvs_out tr =
                  Inr (22, cfg', kvs_out, tr' @ [Platform_free_kvs (heap_id cfg')])"
    using open_bad_param [OF heap out alloc, of cmp lim laio tr] pre good req
    by (simp add: c)
qed

lemmas ex_defs = example_cfg_def example_extern_def example_app_cfg_def example_limits_def
        example_key_compare_def slice_create_def

theorem open_validation_outcomes_witness:
  "splinterdb_create example_limits example_laio example_extern
     (example_cfg\<lparr>data_cfg := example_app_cfg\<lparr>key_size := 0\<rparr>\<rparr>) (Some None) [] = Inl Assert_failed
   \<and> splinterdb_open example_limits example_laio example_extern
     (example_cfg\<lparr>data_cfg := example_app_cfg\<lparr>key_hash := None\<rparr>\<rparr>) (Some None) [] = Inl Assert_failed
   \<and> (\<exists>cfg' tr'.
        splinterdb_create example_limits example_laio example_extern
          (example_cfg\<lparr>data_cfg := example_app_cfg\<lparr>key_size := 16, max_key_length := 16\<rparr>\<rparr>)
          (Some None) [] = Inr (22, cfg', Some None, tr' @ [Platform_free_kvs (heap_id cfg')]))
   \<and> splinterdb_create example_limits example_laio example_extern
     (example_cfg\<lparr>data_cfg := example_app_cfg\<lparr>max_key_length := 0\<rparr>\<rparr>) (Some None) [] = Inl Assert_failed
   \<and> splinterdb_create example_limits example_laio example_extern
     (example_cfg\<lparr>data_cfg := example_app_cfg\<lparr>min_key_length := 9\<rparr>\<rparr>) (Some None) [] = Inl Assert_failed
   \<and> splinterdb_create example_limits example_laio example_extern
     (example_cfg\<lparr>data_cfg := example_app_cfg\<lparr>min_key_length := 1, max_key := replicate 16 0, max_key_length := 1\<rparr>\<rparr>) (Some None) [] =
       Inl Assert_failed
   \<and> min_key_length example_app_cfg = 0
   \<and> splinterdb_validate_app_data_config example_limits example_app_cfg = Inr STATUS_OK
   \<and> (\<exists>cfg' tr'.
        splinterdb_create example_limits example_laio example_extern
          (example_cfg\<lparr>filename := None\<rparr>) (Some None) [] =
          Inr (22, cfg', Some None, tr' @ [Platform_free_kvs (heap_id cfg')])
      \<and> splinterdb_open example_limits example_laio example_extern
          (example_cfg\<lparr>filename := None\<rparr>) (Some None) [] =
          Inr (22, cfg', Some None, tr' @ [Platform_free_kvs (heap_id cfg')]))"
proof -
  have base: "\<not> (use_shmem (example_cfg\<lparr>data_cfg := d\<rparr>) \<and> heap_handle (example_cfg\<lparr>data_cfg := d\<rparr>) = None)
        \<or> SUCCESS (platform_heap_create_rc example_extern)"
     "typed_zalloc_kvs example_extern"
     "\<not> (use_shmem (example_cfg\<lparr>filename := None\<rparr>)
          \<and> heap_handle (example_cfg\<lparr>filename := None\<rparr>) = None)
        \<or> SUCCESS (platform_heap_create_rc example_extern)" for d
    by (simp_all add: example_cfg_def example_extern_def)
  have ev: "lex_cmp [] (replicate 8 (255 :: u8)) = - 1"
    "lex_cmp (replicate 1 (0 :: u8)) (replicate 1 0) = 0"
    by code_simp+
  have w1: "splinterdb_create example_limits example_laio example_extern
     (example_cfg\<lparr>data_cfg := example_app_cfg\<lparr>key_size := 0\<rparr>\<rparr>) (Some None) [] = Inl Assert_failed"
    using open_validation_outcomes [where kvs_cfg = "example_cfg\<lparr>data_cfg := example_app_cfg\<lparr>key_size := 0\<rparr>\<rparr>" and ext = example_extern
        and kvs_out = "Some None" and p = None and c = "example_app_cfg\<lparr>key_size := 0\<rparr>" and lim = example_limits
        and laio = example_laio and tr = "[]" and cmp = example_key_compare]
    by (simp add: ex_defs ev)
  have w2: "splinterdb_open example_limits example_laio example_extern
     (example_cfg\<lparr>data_cfg := example_app_cfg\<lparr>key_hash := None\<rparr>\<rparr>) (Some None) [] = Inl Assert_failed"
    using open_validation_outcomes [where kvs_cfg = "example_cfg\<lparr>data_cfg := example_app_cfg\<lparr>key_hash := None\<rparr>\<rparr>" and ext = example_extern
        and kvs_out = "Some None" and p = None and c = "example_app_cfg\<lparr>key_hash := None\<rparr>" and lim = example_limits
        and laio = example_laio and tr = "[]" and cmp = example_key_compare]
    by (simp add: ex_defs ev)
  have w3: "\<exists>cfg' tr'.
        splinterdb_create example_limits example_laio example_extern
          (example_cfg\<lparr>data_cfg := example_app_cfg\<lparr>key_size := 16, max_key_length := 16\<rparr>\<rparr>)
          (Some None) [] = Inr (22, cfg', Some None, tr' @ [Platform_free_kvs (heap_id cfg')])"
    using open_validation_outcomes [where kvs_cfg = "example_cfg\<lparr>data_cfg := example_app_cfg\<lparr>key_size := 16, max_key_length := 16\<rparr>\<rparr>" and ext = example_extern
        and kvs_out = "Some None" and p = None and c = "example_app_cfg\<lparr>key_size := 16, max_key_length := 16\<rparr>" and lim = example_limits
        and laio = example_laio and tr = "[]" and cmp = example_key_compare]
    by (simp add: ex_defs ev) blast
  have w4: "splinterdb_create example_limits example_laio example_extern
     (example_cfg\<lparr>data_cfg := example_app_cfg\<lparr>max_key_length := 0\<rparr>\<rparr>) (Some None) [] = Inl Assert_failed"
    using open_validation_outcomes [where kvs_cfg = "example_cfg\<lparr>data_cfg := example_app_cfg\<lparr>max_key_length := 0\<rparr>\<rparr>" and ext = example_extern
        and kvs_out = "Some None" and p = None and c = "example_app_cfg\<lparr>max_key_length := 0\<rparr>" and lim = example_limits
        and laio = example_laio and tr = "[]" and cmp = example_key_compare]
    by (simp add: ex_defs ev)
  have w5: "splinterdb_create example_limits example_laio example_extern
     (example_cfg\<lparr>data_cfg := example_app_cfg\<lparr>min_key_length := 9\<rparr>\<rparr>) (Some None) [] = Inl Assert_failed"
    using open_validation_outcomes [where kvs_cfg = "example_cfg\<lparr>data_cfg := example_app_cfg\<lparr>min_key_length := 9\<rparr>\<rparr>" and ext = example_extern
        and kvs_out = "Some None" and p = None and c = "example_app_cfg\<lparr>min_key_length := 9\<rparr>" and lim = example_limits
        and laio = example_laio and tr = "[]" and cmp = example_key_compare]
    by (simp add: ex_defs ev)
  have w6: "splinterdb_create example_limits example_laio example_extern
     (example_cfg\<lparr>data_cfg := example_app_cfg\<lparr>min_key_length := 1, max_key := replicate 16 0, max_key_length := 1\<rparr>\<rparr>) (Some None) [] =
       Inl Assert_failed"
    using open_validation_outcomes [where kvs_cfg = "example_cfg\<lparr>data_cfg := example_app_cfg\<lparr>min_key_length := 1, max_key := replicate 16 0, max_key_length := 1\<rparr>\<rparr>" and ext = example_extern
        and kvs_out = "Some None" and p = None and c = "example_app_cfg\<lparr>min_key_length := 1, max_key := replicate 16 0, max_key_length := 1\<rparr>" and lim = example_limits
        and laio = example_laio and tr = "[]" and cmp = example_key_compare]
    by (simp add: ex_defs ev)
  have w7: "min_key_length example_app_cfg = 0"
    by (simp add: example_app_cfg_def)
  have w8: "splinterdb_validate_app_data_config example_limits example_app_cfg = Inr STATUS_OK
   \<and> (\<exists>cfg' tr'.
        splinterdb_create example_limits example_laio example_extern
          (example_cfg\<lparr>filename := None\<rparr>) (Some None) [] =
          Inr (22, cfg', Some None, tr' @ [Platform_free_kvs (heap_id cfg')])
      \<and> splinterdb_open example_limits example_laio example_extern
          (example_cfg\<lparr>filename := None\<rparr>) (Some None) [] =
          Inr (22, cfg', Some None, tr' @ [Platform_free_kvs (heap_id cfg')]))"
    using open_validation_outcomes [where kvs_cfg = "example_cfg\<lparr>filename := None\<rparr>" and ext = example_extern
        and kvs_out = "Some None" and p = None and c = "example_app_cfg" and lim = example_limits
        and laio = example_laio and tr = "[]" and cmp = example_key_compare]
    by (simp add: ex_defs ev)
  from w1 w2 w3 w4 w5 w6 w7 w8 show ?thesis by (simp only: simp_thms)
qed

text \<open>
  The claim C6 as written says that every violation of the config invariants makes the
  call return BadParam. A maximum key longer than \<^verbatim>\<open>key_size\<close> fails an assertion instead,
  and a config whose \<^verbatim>\<open>min_key_length\<close> is 0 is accepted: the store is created and
  published.
\<close>

theorem open_asserts_or_accepts_invalid_config:
  "splinterdb_create example_limits example_laio example_extern
     (example_cfg\<lparr>data_cfg := example_app_cfg\<lparr>max_key_length := 9\<rparr>\<rparr>) (Some None) [] =
     Inl Assert_failed
   \<and> min_key_length (data_cfg example_cfg) = 0
   \<and> (case splinterdb_create example_limits example_laio example_extern example_cfg (Some None) [] of
         Inl f \<Rightarrow> False
       | Inr (rc, cfg', kvs_out', tr') \<Rightarrow>
           rc = 0 \<and> (case kvs_out' of Some (Some kvs) \<Rightarrow> True | _ \<Rightarrow> False))"
proof -
  have a: "splinterdb_create example_limits example_laio example_extern
     (example_cfg\<lparr>data_cfg := example_app_cfg\<lparr>max_key_length := 9\<rparr>\<rparr>) (Some None) [] =
     Inl Assert_failed"
    by (simp add: splinterdb_create_def splinterdb_create_or_open_def splinterdb_init_config_def
          splinterdb_validate_app_data_config_def example_cfg_def example_app_cfg_def
          example_extern_def example_limits_def Let_def)
  have b: "min_key_length (data_cfg example_cfg) = 0"
    by (simp add: example_cfg_def example_app_cfg_def)
  have c: "(case splinterdb_create example_limits example_laio example_extern example_cfg (Some None) [] of
         Inl f \<Rightarrow> False
       | Inr (rc, cfg', kvs_out', tr') \<Rightarrow>
           rc = 0 \<and> (case kvs_out' of Some (Some kvs) \<Rightarrow> True | _ \<Rightarrow> False))"
    by code_simp
  from a b c show ?thesis by (simp only: simp_thms)
qed

subsection \<open>Closing a store\<close>

text \<open>
  C7, as the code has it. On a store pointer that is not null, \<^verbatim>\<open>splinterdb_close\<close> makes
  exactly six calls, in the order unmount trunk, deinit cache, unmount allocator, deinit
  io handle, destroy task system, destroy heap, and leaves the caller's pointer variable
  null; it returns nothing. On a pointer variable that is already null it fails its
  assertion.
\<close>

theorem close_protocol:
  "splinterdb_close (Some (Some kvs)) tr =
     Inr (Some None,
          tr @ [Trunk_unmount (spl kvs), Clockcache_deinit, Rc_allocator_unmount, Io_handle_deinit,
                Task_system_destroy (kvs_heap_id kvs), Platform_heap_destroy (kvs_heap_handle kvs)])
   \<and> splinterdb_close (Some None) tr' = Inl Assert_failed"
  by (simp add: splinterdb_close_def)

text \<open>
  The claim C7 as written says that a second call to close, on the nulled pointer, is a
  no-op. Closing the example store and then closing again fails the assertion.
\<close>

theorem second_close_asserts:
  "splinterdb_close (Some (Some example_kvs)) [] =
     Inr (Some None,
          [Trunk_unmount (Some 7), Clockcache_deinit, Rc_allocator_unmount, Io_handle_deinit,
           Task_system_destroy None, Platform_heap_destroy None])
   \<and> splinterdb_close (Some None)
         [Trunk_unmount (Some 7), Clockcache_deinit, Rc_allocator_unmount, Io_handle_deinit,
          Task_system_destroy None, Platform_heap_destroy None] = Inl Assert_failed"
  by (simp add: splinterdb_close_def example_kvs_def)

subsection \<open>Creating an iterator\<close>

text \<open>
  When \<^verbatim>\<open>trunk_range_iterator_init\<close> fails and the call returns, the wrapper that was
  allocated is still on the heap, whatever the caller's \<^verbatim>\<open>*iter\<close> held (as long as it is
  not, by accident, the address the allocator has just handed out).
\<close>

lemma iterator_init_failure_keeps_wrapper:
  assumes "spl kvs \<noteq> None"
    and "typed_malloc_it ext = Some it"
    and "\<not> SUCCESS (trunk_range_iterator_init_rc ext)"
    and "iter \<noteq> Some it"
    and "splinterdb_iterator_init lim ext junk (Some kvs) iter NULL_SLICE w = Inr (rc, iter', w')"
  shows "rc = trunk_range_iterator_init_rc ext \<and> iter' = iter
         \<and> iter_heap w' it = Some (junk\<lparr>last_rc := STATUS_OK\<rparr>)"
  using assms
  by (auto simp: splinterdb_iterator_init_def typed_malloc_def platform_free_def Let_def
        platform_status_to_int_def split: option.splits sum.splits if_splits)

text \<open>
  C8 says that when \<^verbatim>\<open>trunk_range_iterator_init\<close> fails, \<^verbatim>\<open>splinterdb_iterator_init\<close> frees
  the wrapper it allocated. On the example store, with the caller's \<^verbatim>\<open>*iter\<close> null, the
  wrapper allocated at address 100 and \<^verbatim>\<open>trunk_range_iterator_init\<close> returning 5, the call
  returns 5 and leaves \<^verbatim>\<open>*iter\<close> null, but the wrapper at address 100 is still allocated:
  the code frees \<^verbatim>\<open>*iter\<close> instead of \<^verbatim>\<open>it\<close>.
\<close>

theorem iterator_init_failure_leaks_wrapper:
  "splinterdb_iterator_init example_limits
     (example_extern\<lparr>trunk_range_iterator_init_rc := 5\<rparr>) example_junk
     (Some example_kvs) None NULL_SLICE \<lparr>trace = [], iter_heap = Map.empty\<rparr> =
   Inr (5, None,
        \<lparr>trace = [Trunk_range_iterator_init (Some 7) None, Trunk_range_iterator_deinit],
         iter_heap = [100 \<mapsto> \<lparr>last_rc = 0, parent = None\<rparr>]\<rparr>)"
  by (simp add: splinterdb_iterator_init_def example_extern_def example_kvs_def example_junk_def
        typed_malloc_def platform_free_def SUCCESS_def STATUS_OK_def platform_status_to_int_def
        Let_def)

end
